theory Spec2Isabelle
  imports Main "HOL-Library.Multiset"
begin

section \<open>The Kafka connection statement builder (pkg/materialize/connection_kafka.go)\<close>

text \<open>
  Go strings are byte sequences and are modelled as \<open>string\<close> (a list of bytes). Go's
  \<open>int\<close> is modelled as \<open>int\<close>: the builder never computes with the target-group port, it
  only compares it with zero and prints it, so every Go value is covered.
\<close>

subsection \<open>Types declared outside the three source files\<close>

text \<open>
  \<open>MaterializeObject\<close>, \<open>IdentifierSchemaStruct\<close>, \<open>ValueSecretStruct\<close> and \<open>Connection\<close>
  are declared elsewhere in package \<open>materialize\<close>. Their fields are the ones the source
  files read or write: the literal \<open>MaterializeObject{ObjectType: .., Name: .., SchemaName: ..,
  DatabaseName: ..}\<close>; \<open>b.kafkaSSHTunnel.Name\<close>, \<open>.SchemaName\<close>, \<open>.DatabaseName\<close>;
  \<open>b.kafkaSSLCa.Text\<close>, \<open>b.kafkaSSLCa.Secret.Name\<close>; and
  \<open>Connection{connectionName, schemaName, databaseName}\<close> with \<open>b.ConnectionName\<close>,
  \<open>b.SchemaName\<close>, \<open>b.DatabaseName\<close>. Several structs share field names; a field is written
  with its struct's name in front where it is not the one declared last.
\<close>

record MaterializeObject =
  ObjectType :: string
  Name :: string
  SchemaName :: string
  DatabaseName :: string

record IdentifierSchemaStruct =
  Name :: string
  SchemaName :: string
  DatabaseName :: string

record ValueSecretStruct =
  Text :: string
  Secret :: IdentifierSchemaStruct

record Connection =
  ConnectionName :: string
  SchemaName :: string
  DatabaseName :: string

subsection \<open>Types of connection_kafka.go\<close>

record KafkaBroker =
  Broker :: string
  TargetGroupPort :: int
  AvailabilityZone :: string
  PrivateLinkConnection :: IdentifierSchemaStruct

text \<open>The builder embeds \<open>Connection\<close>, as the Go struct does.\<close>

record ConnectionKafkaBuilder = Connection +
  kafkaBrokers :: "KafkaBroker list"
  kafkaProgressTopic :: string
  kafkaSSLCa :: ValueSecretStruct
  kafkaSSLCert :: ValueSecretStruct
  kafkaSSLKey :: IdentifierSchemaStruct
  kafkaSASLMechanisms :: string
  kafkaSASLUsername :: ValueSecretStruct
  kafkaSASLPassword :: IdentifierSchemaStruct
  kafkaSSHTunnel :: IdentifierSchemaStruct

text \<open>The zero values Go gives to fields that a composite literal leaves out.\<close>

definition zero_IdentifierSchemaStruct :: IdentifierSchemaStruct where
  "zero_IdentifierSchemaStruct =
     \<lparr>IdentifierSchemaStruct.Name = [], IdentifierSchemaStruct.SchemaName = [],
      IdentifierSchemaStruct.DatabaseName = []\<rparr>"

definition zero_ValueSecretStruct :: ValueSecretStruct where
  "zero_ValueSecretStruct = \<lparr>Text = [], Secret = zero_IdentifierSchemaStruct\<rparr>"

definition NewConnectionKafkaBuilder :: "string \<Rightarrow> string \<Rightarrow> string \<Rightarrow> ConnectionKafkaBuilder" where
  "NewConnectionKafkaBuilder connectionName schemaName databaseName =
     \<lparr>ConnectionName = connectionName, SchemaName = schemaName, DatabaseName = databaseName,
      kafkaBrokers = [], kafkaProgressTopic = [],
      kafkaSSLCa = zero_ValueSecretStruct, kafkaSSLCert = zero_ValueSecretStruct,
      kafkaSSLKey = zero_IdentifierSchemaStruct, kafkaSASLMechanisms = [],
      kafkaSASLUsername = zero_ValueSecretStruct,
      kafkaSASLPassword = zero_IdentifierSchemaStruct,
      kafkaSSHTunnel = zero_IdentifierSchemaStruct\<rparr>"

subsection \<open>The setters\<close>

text \<open>Each setter assigns one field and returns the builder; the model returns the new record.\<close>

definition KafkaBrokers :: "KafkaBroker list \<Rightarrow> ConnectionKafkaBuilder \<Rightarrow> ConnectionKafkaBuilder" where
  "KafkaBrokers v b = b\<lparr>kafkaBrokers := v\<rparr>"

definition KafkaProgressTopic :: "string \<Rightarrow> ConnectionKafkaBuilder \<Rightarrow> ConnectionKafkaBuilder" where
  "KafkaProgressTopic v b = b\<lparr>kafkaProgressTopic := v\<rparr>"

definition KafkaSSLCa :: "ValueSecretStruct \<Rightarrow> ConnectionKafkaBuilder \<Rightarrow> ConnectionKafkaBuilder" where
  "KafkaSSLCa v b = b\<lparr>kafkaSSLCa := v\<rparr>"

definition KafkaSSLCert :: "ValueSecretStruct \<Rightarrow> ConnectionKafkaBuilder \<Rightarrow> ConnectionKafkaBuilder" where
  "KafkaSSLCert v b = b\<lparr>kafkaSSLCert := v\<rparr>"

definition KafkaSSLKey :: "IdentifierSchemaStruct \<Rightarrow> ConnectionKafkaBuilder \<Rightarrow> ConnectionKafkaBuilder" where
  "KafkaSSLKey v b = b\<lparr>kafkaSSLKey := v\<rparr>"

definition KafkaSASLMechanisms :: "string \<Rightarrow> ConnectionKafkaBuilder \<Rightarrow> ConnectionKafkaBuilder" where
  "KafkaSASLMechanisms v b = b\<lparr>kafkaSASLMechanisms := v\<rparr>"

definition KafkaSASLUsername :: "ValueSecretStruct \<Rightarrow> ConnectionKafkaBuilder \<Rightarrow> ConnectionKafkaBuilder" where
  "KafkaSASLUsername v b = b\<lparr>kafkaSASLUsername := v\<rparr>"

definition KafkaSASLPassword :: "IdentifierSchemaStruct \<Rightarrow> ConnectionKafkaBuilder \<Rightarrow> ConnectionKafkaBuilder" where
  "KafkaSASLPassword v b = b\<lparr>kafkaSASLPassword := v\<rparr>"

definition KafkaSSHTunnel :: "IdentifierSchemaStruct \<Rightarrow> ConnectionKafkaBuilder \<Rightarrow> ConnectionKafkaBuilder" where
  "KafkaSSHTunnel v b = b\<lparr>kafkaSSHTunnel := v\<rparr>"

text \<open>
  A call of one setter with its argument, and a sequence of such calls applied from left to
  right to a builder, as a chain \<open>b.KafkaBrokers(..).KafkaSSLCa(..)\<close> does.
\<close>

datatype setter_call =
    CallKafkaBrokers "KafkaBroker list"
  | CallKafkaProgressTopic string
  | CallKafkaSSLCa ValueSecretStruct
  | CallKafkaSSLCert ValueSecretStruct
  | CallKafkaSSLKey IdentifierSchemaStruct
  | CallKafkaSASLMechanisms string
  | CallKafkaSASLUsername ValueSecretStruct
  | CallKafkaSASLPassword IdentifierSchemaStruct
  | CallKafkaSSHTunnel IdentifierSchemaStruct

fun run_call :: "setter_call \<Rightarrow> ConnectionKafkaBuilder \<Rightarrow> ConnectionKafkaBuilder" where
  "run_call (CallKafkaBrokers v) = KafkaBrokers v"
| "run_call (CallKafkaProgressTopic v) = KafkaProgressTopic v"
| "run_call (CallKafkaSSLCa v) = KafkaSSLCa v"
| "run_call (CallKafkaSSLCert v) = KafkaSSLCert v"
| "run_call (CallKafkaSSLKey v) = KafkaSSLKey v"
| "run_call (CallKafkaSASLMechanisms v) = KafkaSASLMechanisms v"
| "run_call (CallKafkaSASLUsername v) = KafkaSASLUsername v"
| "run_call (CallKafkaSASLPassword v) = KafkaSASLPassword v"
| "run_call (CallKafkaSSHTunnel v) = KafkaSSHTunnel v"

text \<open>The field a call assigns, numbered in the order of the struct declaration.\<close>

fun call_field :: "setter_call \<Rightarrow> nat" where
  "call_field (CallKafkaBrokers v) = 0"
| "call_field (CallKafkaProgressTopic v) = 1"
| "call_field (CallKafkaSSLCa v) = 2"
| "call_field (CallKafkaSSLCert v) = 3"
| "call_field (CallKafkaSSLKey v) = 4"
| "call_field (CallKafkaSASLMechanisms v) = 5"
| "call_field (CallKafkaSASLUsername v) = 6"
| "call_field (CallKafkaSASLPassword v) = 7"
| "call_field (CallKafkaSSHTunnel v) = 8"

definition run_calls :: "setter_call list \<Rightarrow> ConnectionKafkaBuilder \<Rightarrow> ConnectionKafkaBuilder" where
  "run_calls cs b = fold run_call cs b"

subsection \<open>Helpers of package materialize and of Go's fmt\<close>

definition squote :: string where
  "squote = [CHR 0x27]"

definition QuoteString :: "string \<Rightarrow> string" where
  \<comment> \<open>Modelled from the spec: \<open>QuoteString\<close> is not in the three source files. The spec
      calls it the shared quoting routine that "escapes embedded quote characters"; the
      escape is taken to be SQL's doubling of the quote.\<close>
  "QuoteString input =
     squote @ concat (map (\<lambda>c. if c = CHR 0x27 then squote @ squote else [c]) input) @ squote"

definition QualifiedName :: "string list \<Rightarrow> string" where
  \<comment> \<open>Modelled from the spec: the variadic \<open>QualifiedName\<close> is not in the three source
      files. The spec: "a canonical qualified-name string database.schema.name (or
      schema.name / name when parent scopes are empty)". Empty fields are left out and the
      others are joined by a dot.\<close>
  "QualifiedName fs =
     foldr (\<lambda>f acc. if acc = [] then f else f @ ''.'' @ acc) (filter (\<lambda>f. f \<noteq> []) fs) []"

definition Connection_QualifiedName :: "ConnectionKafkaBuilder \<Rightarrow> string" where
  \<comment> \<open>Modelled from the spec: the method \<open>QualifiedName\<close> of the embedded \<open>Connection\<close> is
      not in the three source files; it renders database, schema and name with the shared
      renderer, as \<open>Rename\<close> does with \<open>QualifiedName(b.DatabaseName, b.SchemaName, ..)\<close>.\<close>
  "Connection_QualifiedName b =
     QualifiedName [Connection.DatabaseName b, Connection.SchemaName b, ConnectionName b]"

definition IdentifierSchemaStruct_QualifiedName :: "IdentifierSchemaStruct \<Rightarrow> string" where
  \<comment> \<open>Modelled from the spec: the method \<open>QualifiedName\<close> of \<open>IdentifierSchemaStruct\<close> is
      not in the three source files; "qualified references use the same qualified-name
      renderer".\<close>
  "IdentifierSchemaStruct_QualifiedName i =
     QualifiedName [IdentifierSchemaStruct.DatabaseName i, IdentifierSchemaStruct.SchemaName i,
                    IdentifierSchemaStruct.Name i]"

text \<open>The verb \<open>%d\<close> of \<open>fmt.Sprintf\<close>: a decimal numeral, with a minus sign when negative.\<close>

function decimal :: "nat \<Rightarrow> string" where
  "decimal n =
     (if n < 10 then [''0123456789'' ! n]
      else decimal (n div 10) @ [''0123456789'' ! (n mod 10)])"
  by pat_completeness auto
termination
  by (relation "measure id") auto

definition fmt_d :: "int \<Rightarrow> string" where
  "fmt_d i = (if i < 0 then ''-'' @ decimal (nat (- i)) else decimal (nat i))"

subsection \<open>Create\<close>

text \<open>
  \<open>Create\<close> appends to a \<open>strings.Builder\<close>. The model keeps every \<open>q.WriteString\<close> call
  as a pair of the place in the function that made the call and the text written;
  the statement returned by \<open>q.String()\<close> is the concatenation of the texts.
\<close>

datatype write_site =
    Header
  | BrokersOpen
  | BrokerSshTunnel
  | BrokerPrivateLink
  | BrokerPlain
  | BrokerSeparator
  | BrokersClose
  | ProgressTopic
  | SslCaText
  | SslCaSecret
  | SslCertText
  | SslCertSecret
  | SslKey
  | SaslMechanisms
  | SaslUsernameText
  | SaslUsernameSecret
  | SaslPassword
  | Close

type_synonym writes = "(write_site \<times> string) list"

text \<open>
  The loop of lines 85-90. \<open>n\<close> is \<open>len(b.kafkaBrokers)\<close>, \<open>i\<close> the index of the range
  loop; the comparison \<open>i < len(b.kafkaBrokers)-1\<close> is made on integers.
\<close>

fun ssh_tunnel_loop :: "IdentifierSchemaStruct \<Rightarrow> nat \<Rightarrow> nat \<Rightarrow> KafkaBroker list \<Rightarrow> writes" where
  "ssh_tunnel_loop t n i [] = []"
| "ssh_tunnel_loop t n i (broker # rest) =
     (BrokerSshTunnel,
        QuoteString (Broker broker) @ '' USING SSH TUNNEL '' @
        QualifiedName [IdentifierSchemaStruct.DatabaseName t,
                       IdentifierSchemaStruct.SchemaName t, IdentifierSchemaStruct.Name t])
     # (if int i < int n - 1 then [(BrokerSeparator, '','')] else [])
     @ ssh_tunnel_loop t n (Suc i) rest"

text \<open>The loop of lines 94-107.\<close>

fun broker_loop :: "nat \<Rightarrow> nat \<Rightarrow> KafkaBroker list \<Rightarrow> writes" where
  "broker_loop n i [] = []"
| "broker_loop n i (broker # rest) =
     (if TargetGroupPort broker \<noteq> 0 \<and> AvailabilityZone broker \<noteq> [] \<and>
         IdentifierSchemaStruct.Name (PrivateLinkConnection broker) \<noteq> []
      then (BrokerPrivateLink,
              QuoteString (Broker broker) @ '' USING AWS PRIVATELINK '' @
              QualifiedName [IdentifierSchemaStruct.DatabaseName (PrivateLinkConnection broker),
                             IdentifierSchemaStruct.SchemaName (PrivateLinkConnection broker),
                             IdentifierSchemaStruct.Name (PrivateLinkConnection broker)] @
              '' (PORT '' @ fmt_d (TargetGroupPort broker) @ '', AVAILABILITY ZONE '' @
              QuoteString (AvailabilityZone broker) @ '')'')
           # (if int i < int n - 1 then [(BrokerSeparator, '', '')] else [])
      else (BrokerPlain, QuoteString (Broker broker))
           # (if int i < int n - 1 then [(BrokerSeparator, '', '')] else []))
     @ broker_loop n (Suc i) rest"

text \<open>Lines 83-109: the brokers clause, through the tunnel or broker by broker.\<close>

definition Create_brokers :: "ConnectionKafkaBuilder \<Rightarrow> writes" where
  "Create_brokers b =
     (if IdentifierSchemaStruct.Name (kafkaSSHTunnel b) \<noteq> []
      then [(BrokersOpen, ''BROKERS ('')]
           @ ssh_tunnel_loop (kafkaSSHTunnel b) (length (kafkaBrokers b)) 0 (kafkaBrokers b)
           @ [(BrokersClose, '')'')]
      else [(BrokersOpen, ''BROKERS ('')]
           @ broker_loop (length (kafkaBrokers b)) 0 (kafkaBrokers b)
           @ [(BrokersClose, '')'')])"

text \<open>Lines 111-140: the optional clauses, one \<open>if\<close> each, in the order of the source.\<close>

definition Create_options :: "ConnectionKafkaBuilder \<Rightarrow> writes" where
  "Create_options b =
     (if kafkaProgressTopic b \<noteq> []
      then [(ProgressTopic, '', PROGRESS TOPIC '' @ QuoteString (kafkaProgressTopic b))]
      else [])
   @ (if Text (kafkaSSLCa b) \<noteq> []
      then [(SslCaText, '', SSL CERTIFICATE AUTHORITY = '' @ QuoteString (Text (kafkaSSLCa b)))]
      else [])
   @ (if IdentifierSchemaStruct.Name (Secret (kafkaSSLCa b)) \<noteq> []
      then [(SslCaSecret, '', SSL CERTIFICATE AUTHORITY = SECRET '' @
                          IdentifierSchemaStruct_QualifiedName (Secret (kafkaSSLCa b)))]
      else [])
   @ (if Text (kafkaSSLCert b) \<noteq> []
      then [(SslCertText, '', SSL CERTIFICATE = '' @ QuoteString (Text (kafkaSSLCert b)))]
      else [])
   @ (if IdentifierSchemaStruct.Name (Secret (kafkaSSLCert b)) \<noteq> []
      then [(SslCertSecret, '', SSL CERTIFICATE = SECRET '' @
                            IdentifierSchemaStruct_QualifiedName (Secret (kafkaSSLCert b)))]
      else [])
   @ (if IdentifierSchemaStruct.Name (kafkaSSLKey b) \<noteq> []
      then [(SslKey, '', SSL KEY = SECRET '' @
                     IdentifierSchemaStruct_QualifiedName (kafkaSSLKey b))]
      else [])
   @ (if kafkaSASLMechanisms b \<noteq> []
      then [(SaslMechanisms, '', SASL MECHANISMS = '' @ QuoteString (kafkaSASLMechanisms b))]
      else [])
   @ (if Text (kafkaSASLUsername b) \<noteq> []
      then [(SaslUsernameText, '', SASL USERNAME = '' @
                               QuoteString (Text (kafkaSASLUsername b)))]
      else [])
   @ (if IdentifierSchemaStruct.Name (Secret (kafkaSASLUsername b)) \<noteq> []
      then [(SaslUsernameSecret, '', SASL USERNAME = SECRET '' @
                                 IdentifierSchemaStruct_QualifiedName (Secret (kafkaSASLUsername b)))]
      else [])
   @ (if IdentifierSchemaStruct.Name (kafkaSASLPassword b) \<noteq> []
      then [(SaslPassword, '', SASL PASSWORD = SECRET '' @
                           IdentifierSchemaStruct_QualifiedName (kafkaSASLPassword b))]
      else [])"

definition Create_writes :: "ConnectionKafkaBuilder \<Rightarrow> writes" where
  "Create_writes b =
     [(Header, ''CREATE CONNECTION '' @ Connection_QualifiedName b @ '' TO KAFKA ('')]
     @ Create_brokers b
     @ Create_options b
     @ [(Close, '');'')]"

definition Create :: "ConnectionKafkaBuilder \<Rightarrow> string" where
  "Create b = concat (map snd (Create_writes b))"

definition Rename :: "ConnectionKafkaBuilder \<Rightarrow> string \<Rightarrow> string" where
  "Rename b newConnectionName =
     ''ALTER CONNECTION '' @ Connection_QualifiedName b @ '' RENAME TO '' @
     QualifiedName [Connection.DatabaseName b, Connection.SchemaName b, newConnectionName] @ '';''"

definition Drop :: "ConnectionKafkaBuilder \<Rightarrow> string" where
  "Drop b = ''DROP CONNECTION '' @ Connection_QualifiedName b @ '';''"


section \<open>The resource layer (pkg/resources)\<close>

text \<open>
  The two create functions talk to collaborators that are not in the three source files: the
  Terraform resource data \<open>d\<close>, the database client, the builders of package
  \<open>materialize\<close> that execute statements, and the read functions. The model makes every
  such call explicit: it is appended to a log, and what the collaborator answers is taken
  from an environment. Nothing is assumed about the answers; a theorem about all
  environments covers every behaviour of the store. Each function issues each call at most
  once, so an answer per call is enough.
\<close>

subsection \<open>Errors and diagnostics\<close>

text \<open>A Go \<open>error\<close> is identified with its message; \<open>diag.Diagnostics\<close> is a list.\<close>

type_synonym error = string

type_synonym Diagnostics = "error list"

definition FromErr :: "error \<Rightarrow> Diagnostics" where
  "FromErr err = [err]"

subsection \<open>Resource data\<close>

text \<open>
  Only string attributes decide the control flow. \<open>d.Get\<close> returns the value, the empty
  string when unset; \<open>d.GetOk\<close> also tells whether the value is set and is not the zero
  value.
\<close>

type_synonym ResourceData = "string \<Rightarrow> string"

definition Get :: "ResourceData \<Rightarrow> string \<Rightarrow> string" where
  "Get d key = d key"

definition GetOk :: "ResourceData \<Rightarrow> string \<Rightarrow> string \<times> bool" where
  "GetOk d key = (d key, d key \<noteq> [])"

subsection \<open>Calls, environment, world\<close>

datatype call =
    CallCreate MaterializeObject
  | CallAlter MaterializeObject string
  | CallDrop MaterializeObject
  | CallObject MaterializeObject string
  | CallConnectionId MaterializeObject
  | CallConnectionRead
  | CallGrant string string MaterializeObject
  | CallRevoke string string MaterializeObject
  | CallRoleId string
  | CallObjectId MaterializeObject
  | CallGrantRead
  | CallSetId string

text \<open>
  \<open>client\<close> is the answer of \<open>utils.GetDBClientFromMeta\<close>: an error, or the region (the
  client itself carries no data the functions read). \<open>exec\<close> answers a statement,
  \<open>None\<close> for success; \<open>query\<close> answers an id lookup; \<open>read\<close> is what \<open>connectionRead\<close> or
  \<open>grantRead\<close> returns.
\<close>

record env =
  client :: "error + string"
  exec :: "call \<Rightarrow> error option"
  query :: "call \<Rightarrow> error + string"
  read :: Diagnostics

text \<open>
  The world outside: the calls made so far, oldest first, and the privileges the store
  holds, as triples of role, privilege and object.
\<close>

record world =
  issued :: "call list"
  privileges :: "(string \<times> string \<times> MaterializeObject) set"

definition issue :: "call \<Rightarrow> world \<Rightarrow> world" where
  "issue c w = w\<lparr>issued := issued w @ [c]\<rparr>"

definition run_stmt :: "env \<Rightarrow> call \<Rightarrow> world \<Rightarrow> error option \<times> world" where
  "run_stmt e c w = (exec e c, issue c w)"

definition run_query :: "env \<Rightarrow> call \<Rightarrow> world \<Rightarrow> (error + string) \<times> world" where
  "run_query e c w = (query e c, issue c w)"

definition SetId :: "string \<Rightarrow> world \<Rightarrow> world" where
  "SetId v w = issue (CallSetId v) w"

subsection \<open>Collaborators of package materialize and utils\<close>

definition b_Create :: "env \<Rightarrow> MaterializeObject \<Rightarrow> world \<Rightarrow> error option \<times> world" where
  \<comment> \<open>\<open>b.Create()\<close> of the resource file: executes the create statement, returns its error.\<close>
  "b_Create e obj w = run_stmt e (CallCreate obj) w"

definition b_Drop :: "env \<Rightarrow> MaterializeObject \<Rightarrow> world \<Rightarrow> error option \<times> world" where
  "b_Drop e obj w = run_stmt e (CallDrop obj) w"

definition ownership_Alter :: "env \<Rightarrow> MaterializeObject \<Rightarrow> string \<Rightarrow> world \<Rightarrow> error option \<times> world" where
  "ownership_Alter e obj role w = run_stmt e (CallAlter obj role) w"

definition comment_Object :: "env \<Rightarrow> MaterializeObject \<Rightarrow> string \<Rightarrow> world \<Rightarrow> error option \<times> world" where
  "comment_Object e obj c w = run_stmt e (CallObject obj c) w"

definition ConnectionId :: "env \<Rightarrow> MaterializeObject \<Rightarrow> world \<Rightarrow> (error + string) \<times> world" where
  "ConnectionId e obj w = run_query e (CallConnectionId obj) w"

definition RoleId :: "env \<Rightarrow> string \<Rightarrow> world \<Rightarrow> (error + string) \<times> world" where
  "RoleId e roleName w = run_query e (CallRoleId roleName) w"

definition ObjectId :: "env \<Rightarrow> MaterializeObject \<Rightarrow> world \<Rightarrow> (error + string) \<times> world" where
  "ObjectId e obj w = run_query e (CallObjectId obj) w"

definition connectionRead :: "env \<Rightarrow> world \<Rightarrow> Diagnostics \<times> world" where
  "connectionRead e w = (read e, issue CallConnectionRead w)"

definition grantRead :: "env \<Rightarrow> world \<Rightarrow> Diagnostics \<times> world" where
  "grantRead e w = (read e, issue CallGrantRead w)"

definition b_Grant :: "env \<Rightarrow> string \<Rightarrow> string \<Rightarrow> MaterializeObject \<Rightarrow> world \<Rightarrow> error option \<times> world" where
  \<comment> \<open>Modelled from the spec: \<open>PrivilegeBuilder.Grant\<close> is not in the three source files.
      The spec: it "executes a single GRANT <privilege> ON <object> TO <role> statement";
      when the statement succeeds the store holds the privilege.\<close>
  "b_Grant e roleName privilege obj w =
     (case exec e (CallGrant roleName privilege obj) of
        None \<Rightarrow>
          (None, (issue (CallGrant roleName privilege obj) w)
                   \<lparr>privileges := insert (roleName, privilege, obj) (privileges w)\<rparr>)
      | Some err \<Rightarrow> (Some err, issue (CallGrant roleName privilege obj) w))"

definition b_Revoke :: "env \<Rightarrow> string \<Rightarrow> string \<Rightarrow> MaterializeObject \<Rightarrow> world \<Rightarrow> error option \<times> world" where
  \<comment> \<open>Modelled from the spec: \<open>PrivilegeBuilder.Revoke\<close> is not in the three source files.
      The spec: it "executes the inverse" of the grant statement.\<close>
  "b_Revoke e roleName privilege obj w =
     (case exec e (CallRevoke roleName privilege obj) of
        None \<Rightarrow>
          (None, (issue (CallRevoke roleName privilege obj) w)
                   \<lparr>privileges := privileges w - {(roleName, privilege, obj)}\<rparr>)
      | Some err \<Rightarrow> (Some err, issue (CallRevoke roleName privilege obj) w))"

definition TransformIdWithRegion :: "string \<Rightarrow> string \<Rightarrow> string" where
  \<comment> \<open>Modelled from the spec: \<open>utils.TransformIdWithRegion\<close> is not in the three source
      files. The spec: the identity string is "<region>:<external-id>".\<close>
  "TransformIdWithRegion region i = region @ '':'' @ i"

definition GrantKey :: "string \<Rightarrow> string \<Rightarrow> string \<Rightarrow> string \<Rightarrow> string" where
  \<comment> \<open>Modelled from the spec: \<open>PrivilegeBuilder.GrantKey\<close> is not in the three source
      files. The spec: the grant key is a "deterministic concatenation of region, object
      id, role id, privilege". The spec names no separator, so none is written.\<close>
  "GrantKey region objectId roleId privilege = region @ objectId @ roleId @ privilege"

subsection \<open>connectionKafkaCreate (resource_connection_kafka.go)\<close>

text \<open>
  Lines 170-224 read the attributes into the builder. They make no call on the store and
  never return, so the model goes from the client straight to \<open>b.Create()\<close>. The two
  \<open>log.Printf\<close> calls are left out.

  Lines 231-240 and 242-251: each step returns \<open>Some\<close> diagnostics when the function
  returns there. The error of \<open>b.Drop()\<close> is bound and not used, as in the source, where
  the call is a statement on its own.
\<close>

definition ownership_step ::
  "env \<Rightarrow> ResourceData \<Rightarrow> MaterializeObject \<Rightarrow> world \<Rightarrow> Diagnostics option \<times> world" where
  "ownership_step e d obj w =
     (let (v, ok) = GetOk d ''ownership_role'' in
      if ok then
        (case ownership_Alter e obj v w of
           (Some err, w1) \<Rightarrow> (let (dropErr, w2) = b_Drop e obj w1 in (Some (FromErr err), w2))
         | (None, w1) \<Rightarrow> (None, w1))
      else (None, w))"

definition comment_step ::
  "env \<Rightarrow> ResourceData \<Rightarrow> MaterializeObject \<Rightarrow> world \<Rightarrow> Diagnostics option \<times> world" where
  "comment_step e d obj w =
     (let (v, ok) = GetOk d ''comment'' in
      if ok then
        (case comment_Object e obj v w of
           (Some err, w1) \<Rightarrow> (let (dropErr, w2) = b_Drop e obj w1 in (Some (FromErr err), w2))
         | (None, w1) \<Rightarrow> (None, w1))
      else (None, w))"

definition connection_object :: "ResourceData \<Rightarrow> MaterializeObject" where
  "connection_object d =
     \<lparr>ObjectType = ''CONNECTION'', MaterializeObject.Name = Get d ''name'',
      MaterializeObject.SchemaName = Get d ''schema_name'',
      MaterializeObject.DatabaseName = Get d ''database_name''\<rparr>"

definition connectionKafkaCreate :: "env \<Rightarrow> ResourceData \<Rightarrow> world \<Rightarrow> Diagnostics \<times> world" where
  "connectionKafkaCreate e d w =
     (case client e of
        Inl err \<Rightarrow> (FromErr err, w)
      | Inr region \<Rightarrow>
          (let obj = connection_object d in
           case b_Create e obj w of
             (Some err, w1) \<Rightarrow> (FromErr err, w1)
           | (None, w1) \<Rightarrow>
               (case ownership_step e d obj w1 of
                  (Some ds, w2) \<Rightarrow> (ds, w2)
                | (None, w2) \<Rightarrow>
                    (case comment_step e d obj w2 of
                       (Some ds, w3) \<Rightarrow> (ds, w3)
                     | (None, w3) \<Rightarrow>
                         (case ConnectionId e obj w3 of
                            (Inl err, w4) \<Rightarrow> (FromErr err, w4)
                          | (Inr i, w4) \<Rightarrow>
                              connectionRead e (SetId (TransformIdWithRegion region i) w4))))))"

subsection \<open>grantSecretCreate (resource_grant_secret.go)\<close>

definition secret_object :: "ResourceData \<Rightarrow> MaterializeObject" where
  "secret_object d =
     \<lparr>ObjectType = ''SECRET'', MaterializeObject.Name = Get d ''secret_name'',
      MaterializeObject.SchemaName = Get d ''schema_name'',
      MaterializeObject.DatabaseName = Get d ''database_name''\<rparr>"

definition grantSecretCreate :: "env \<Rightarrow> ResourceData \<Rightarrow> world \<Rightarrow> Diagnostics \<times> world" where
  "grantSecretCreate e d w =
     (let roleName = Get d ''role_name'';
          privilege = Get d ''privilege'';
          obj = secret_object d
      in case client e of
        Inl err \<Rightarrow> (FromErr err, w)
      | Inr region \<Rightarrow>
          (case b_Grant e roleName privilege obj w of
             (Some err, w1) \<Rightarrow> (FromErr err, w1)
           | (None, w1) \<Rightarrow>
               (case RoleId e roleName w1 of
                  (Inl err, w2) \<Rightarrow> (FromErr err, w2)
                | (Inr roleId, w2) \<Rightarrow>
                    (case ObjectId e obj w2 of
                       (Inl err, w3) \<Rightarrow> (FromErr err, w3)
                     | (Inr i, w3) \<Rightarrow>
                         grantRead e (SetId (GrantKey region i roleId privilege) w3)))))"

definition grantSecretDelete :: "env \<Rightarrow> ResourceData \<Rightarrow> world \<Rightarrow> Diagnostics \<times> world" where
  "grantSecretDelete e d w =
     (let roleName = Get d ''role_name'';
          privilege = Get d ''privilege''
      in case client e of
        Inl err \<Rightarrow> (FromErr err, w)
      | Inr region \<Rightarrow>
          (case b_Revoke e roleName privilege (secret_object d) w of
             (Some err, w1) \<Rightarrow> (FromErr err, w1)
           | (None, w1) \<Rightarrow> ([], w1)))"

text \<open>
  The spec speaks of resolving the object id before the role id. The source has one order
  only (role first); the other order is written here after the spec, to be compared with it.
\<close>

definition grantSecretCreate_object_first :: "env \<Rightarrow> ResourceData \<Rightarrow> world \<Rightarrow> Diagnostics \<times> world" where
  "grantSecretCreate_object_first e d w =
     (let roleName = Get d ''role_name'';
          privilege = Get d ''privilege'';
          obj = secret_object d
      in case client e of
        Inl err \<Rightarrow> (FromErr err, w)
      | Inr region \<Rightarrow>
          (case b_Grant e roleName privilege obj w of
             (Some err, w1) \<Rightarrow> (FromErr err, w1)
           | (None, w1) \<Rightarrow>
               (case ObjectId e obj w1 of
                  (Inl err, w2) \<Rightarrow> (FromErr err, w2)
                | (Inr i, w2) \<Rightarrow>
                    (case RoleId e roleName w2 of
                       (Inl err, w3) \<Rightarrow> (FromErr err, w3)
                     | (Inr roleId, w3) \<Rightarrow>
                         grantRead e (SetId (GrantKey region i roleId privilege) w3)))))"

text \<open>The calls made between two worlds, and the ids handed to \<open>d.SetId\<close> among calls.\<close>

definition calls_since :: "world \<Rightarrow> world \<Rightarrow> call list" where
  "calls_since w w' = drop (length (issued w)) (issued w')"

fun set_ids :: "call list \<Rightarrow> string list" where
  "set_ids [] = []"
| "set_ids (CallSetId v # cs) = v # set_ids cs"
| "set_ids (c # cs) = set_ids cs"

fun is_Drop :: "call \<Rightarrow> bool" where
  "is_Drop (CallDrop obj) = True"
| "is_Drop c = False"

fun is_Revoke :: "call \<Rightarrow> bool" where
  "is_Revoke (CallRevoke r p obj) = True"
| "is_Revoke c = False"


section \<open>Notions used to state the properties\<close>

text \<open>The writes made at given places, in the order they were made.\<close>

definition clauses_at :: "write_site list \<Rightarrow> writes \<Rightarrow> writes" where
  "clauses_at sites ws = filter (\<lambda>w. fst w \<in> set sites) ws"

definition broker_sites :: "write_site list" where
  "broker_sites = [BrokerSshTunnel, BrokerPrivateLink, BrokerPlain]"

definition option_sites :: "write_site list" where
  "option_sites =
     [ProgressTopic, SslCaText, SslCaSecret, SslCertText, SslCertSecret, SslKey,
      SaslMechanisms, SaslUsernameText, SaslUsernameSecret, SaslPassword]"

text \<open>Texts in a row with a separator between neighbours, as \<open>strings.Join\<close> gives.\<close>

fun join :: "string \<Rightarrow> string list \<Rightarrow> string" where
  "join sep [] = []"
| "join sep [x] = x"
| "join sep (x # y # ys) = x @ sep @ join sep (y # ys)"

text \<open>The three forms of a broker clause.\<close>

definition ssh_tunnel_clause :: "IdentifierSchemaStruct \<Rightarrow> KafkaBroker \<Rightarrow> string" where
  "ssh_tunnel_clause t br =
     QuoteString (Broker br) @ '' USING SSH TUNNEL '' @
     QualifiedName [IdentifierSchemaStruct.DatabaseName t, IdentifierSchemaStruct.SchemaName t,
                    IdentifierSchemaStruct.Name t]"

definition privatelink_clause :: "KafkaBroker \<Rightarrow> string" where
  "privatelink_clause br =
     QuoteString (Broker br) @ '' USING AWS PRIVATELINK '' @
     QualifiedName [IdentifierSchemaStruct.DatabaseName (PrivateLinkConnection br),
                    IdentifierSchemaStruct.SchemaName (PrivateLinkConnection br),
                    IdentifierSchemaStruct.Name (PrivateLinkConnection br)] @
     '' (PORT '' @ fmt_d (TargetGroupPort br) @ '', AVAILABILITY ZONE '' @
     QuoteString (AvailabilityZone br) @ '')''"

definition fully_privatelink :: "KafkaBroker \<Rightarrow> bool" where
  "fully_privatelink br \<longleftrightarrow>
     TargetGroupPort br \<noteq> 0 \<and> AvailabilityZone br \<noteq> [] \<and>
     IdentifierSchemaStruct.Name (PrivateLinkConnection br) \<noteq> []"

definition broker_clause :: "KafkaBroker \<Rightarrow> write_site \<times> string" where
  "broker_clause br =
     (if fully_privatelink br then (BrokerPrivateLink, privatelink_clause br)
      else (BrokerPlain, QuoteString (Broker br)))"

text \<open>
  The clauses of a field of type \<open>ValueSecretStruct\<close>: the plaintext clause when the text is
  not empty, then the secret clause when the secret is named.
\<close>

definition value_secret_clauses ::
  "write_site \<Rightarrow> write_site \<Rightarrow> string \<Rightarrow> ValueSecretStruct \<Rightarrow> writes" where
  "value_secret_clauses text_site secret_site keyword v =
     (if Text v \<noteq> []
      then [(text_site, '', '' @ keyword @ '' = '' @ QuoteString (Text v))]
      else [])
   @ (if IdentifierSchemaStruct.Name (Secret v) \<noteq> []
      then [(secret_site, '', '' @ keyword @ '' = SECRET '' @
                          IdentifierSchemaStruct_QualifiedName (Secret v))]
      else [])"

definition exclusive :: "ValueSecretStruct \<Rightarrow> bool" where
  "exclusive v \<longleftrightarrow> Text v = [] \<or> IdentifierSchemaStruct.Name (Secret v) = []"

text \<open>
  The part of the statement a write belongs to: the head, the brokers, the progress topic,
  the TLS fields, the SASL fields, the end.
\<close>

fun phase :: "write_site \<Rightarrow> nat" where
  "phase Header = 0"
| "phase BrokersOpen = 1"
| "phase BrokerSshTunnel = 1"
| "phase BrokerPrivateLink = 1"
| "phase BrokerPlain = 1"
| "phase BrokerSeparator = 1"
| "phase BrokersClose = 1"
| "phase ProgressTopic = 2"
| "phase SslCaText = 3"
| "phase SslCaSecret = 3"
| "phase SslCertText = 3"
| "phase SslCertSecret = 3"
| "phase SslKey = 3"
| "phase SaslMechanisms = 4"
| "phase SaslUsernameText = 4"
| "phase SaslUsernameSecret = 4"
| "phase SaslPassword = 4"
| "phase Close = 5"

text \<open>
  The statement as the spec's grammar gives it, part by part: \<open>BROKERS (...)\<close>, then
  \<open>[, PROGRESS TOPIC '<t>']\<close>, then the TLS fields \<open>[, SSL CERTIFICATE AUTHORITY = ...]
  [, SSL CERTIFICATE = ...] [, SSL KEY = SECRET <ref>]\<close>, then the SASL fields
  \<open>[, SASL MECHANISMS = '<m>'] [, SASL USERNAME = ...] [, SASL PASSWORD = SECRET <ref>]\<close>.
  Each part is a function of the builder's fields alone. These texts are written after the
  spec, to be compared with what \<open>Create\<close> returns.
\<close>

definition brokers_text :: "ConnectionKafkaBuilder \<Rightarrow> string" where
  "brokers_text b =
     ''BROKERS ('' @
     (if IdentifierSchemaStruct.Name (kafkaSSHTunnel b) \<noteq> []
      then join '','' (map (ssh_tunnel_clause (kafkaSSHTunnel b)) (kafkaBrokers b))
      else join '', '' (map (snd \<circ> broker_clause) (kafkaBrokers b))) @
     '')''"

definition quoted_text :: "string \<Rightarrow> string \<Rightarrow> string" where
  "quoted_text keyword v = (if v \<noteq> [] then '', '' @ keyword @ QuoteString v else [])"

definition secret_reference_text :: "string \<Rightarrow> IdentifierSchemaStruct \<Rightarrow> string" where
  "secret_reference_text keyword i =
     (if IdentifierSchemaStruct.Name i \<noteq> []
      then '', '' @ keyword @ ''SECRET '' @ IdentifierSchemaStruct_QualifiedName i
      else [])"

definition value_secret_text :: "string \<Rightarrow> ValueSecretStruct \<Rightarrow> string" where
  "value_secret_text keyword v =
     quoted_text keyword (Text v) @ secret_reference_text keyword (Secret v)"

definition progress_topic_text :: "ConnectionKafkaBuilder \<Rightarrow> string" where
  "progress_topic_text b = quoted_text ''PROGRESS TOPIC '' (kafkaProgressTopic b)"

definition tls_text :: "ConnectionKafkaBuilder \<Rightarrow> string" where
  "tls_text b =
     value_secret_text ''SSL CERTIFICATE AUTHORITY = '' (kafkaSSLCa b) @
     value_secret_text ''SSL CERTIFICATE = '' (kafkaSSLCert b) @
     secret_reference_text ''SSL KEY = '' (kafkaSSLKey b)"

definition sasl_text :: "ConnectionKafkaBuilder \<Rightarrow> string" where
  "sasl_text b =
     quoted_text ''SASL MECHANISMS = '' (kafkaSASLMechanisms b) @
     value_secret_text ''SASL USERNAME = '' (kafkaSASLUsername b) @
     secret_reference_text ''SASL PASSWORD = '' (kafkaSASLPassword b)"

definition kafka_statement :: "ConnectionKafkaBuilder \<Rightarrow> string" where
  "kafka_statement b =
     ''CREATE CONNECTION '' @ Connection_QualifiedName b @ '' TO KAFKA ('' @
     brokers_text b @ progress_topic_text b @ tls_text b @ sasl_text b @ '');''"

definition same_fields :: "ConnectionKafkaBuilder \<Rightarrow> ConnectionKafkaBuilder \<Rightarrow> bool" where
  "same_fields b1 b2 \<longleftrightarrow>
     ConnectionName b1 = ConnectionName b2 \<and>
     Connection.SchemaName b1 = Connection.SchemaName b2 \<and>
     Connection.DatabaseName b1 = Connection.DatabaseName b2 \<and>
     kafkaBrokers b1 = kafkaBrokers b2 \<and>
     kafkaProgressTopic b1 = kafkaProgressTopic b2 \<and>
     kafkaSSLCa b1 = kafkaSSLCa b2 \<and>
     kafkaSSLCert b1 = kafkaSSLCert b2 \<and>
     kafkaSSLKey b1 = kafkaSSLKey b2 \<and>
     kafkaSASLMechanisms b1 = kafkaSASLMechanisms b2 \<and>
     kafkaSASLUsername b1 = kafkaSASLUsername b2 \<and>
     kafkaSASLPassword b1 = kafkaSASLPassword b2 \<and>
     kafkaSSHTunnel b1 = kafkaSSHTunnel b2"

section \<open>Example inputs\<close>

definition named :: "string \<Rightarrow> IdentifierSchemaStruct" where
  "named n = \<lparr>IdentifierSchemaStruct.Name = n, IdentifierSchemaStruct.SchemaName = [],
              IdentifierSchemaStruct.DatabaseName = []\<rparr>"

definition plain_broker :: "string \<Rightarrow> KafkaBroker" where
  "plain_broker host =
     \<lparr>Broker = host, TargetGroupPort = 0, AvailabilityZone = [],
      PrivateLinkConnection = zero_IdentifierSchemaStruct\<rparr>"

text \<open>Scenario A of the spec.\<close>

definition scenario_A_calls :: "setter_call list" where
  "scenario_A_calls =
     [CallKafkaBrokers [plain_broker ''b1:9092''],
      CallKafkaSASLMechanisms ''PLAIN'',
      CallKafkaSASLUsername \<lparr>Text = ''u'', Secret = zero_IdentifierSchemaStruct\<rparr>,
      CallKafkaSASLPassword (named ''pw_secret'')]"

definition scenario_A :: ConnectionKafkaBuilder where
  "scenario_A = run_calls scenario_A_calls (NewConnectionKafkaBuilder ''k1'' [] [])"

text \<open>A certificate authority given both as text and as a secret.\<close>

definition ca_text_and_secret :: ConnectionKafkaBuilder where
  "ca_text_and_secret =
     KafkaSSLCa \<lparr>Text = ''pem'', Secret = named ''ca_secret''\<rparr>
       (KafkaBrokers [plain_broker ''b1:9092''] (NewConnectionKafkaBuilder ''k1'' [] []))"

text \<open>
  Two brokers, the first with a port but no PrivateLink connection, the second with all
  three PrivateLink fields; without and with a tunnel for the whole connection.
\<close>

definition two_brokers :: "KafkaBroker list" where
  "two_brokers =
     [\<lparr>Broker = ''b1:9092'', TargetGroupPort = 9093, AvailabilityZone = [],
       PrivateLinkConnection = zero_IdentifierSchemaStruct\<rparr>,
      \<lparr>Broker = ''b2:9092'', TargetGroupPort = 9094, AvailabilityZone = ''use1-az1'',
       PrivateLinkConnection = named ''pl''\<rparr>]"

definition untunnelled :: ConnectionKafkaBuilder where
  "untunnelled = KafkaBrokers two_brokers (NewConnectionKafkaBuilder ''k1'' [] [])"

definition tunnelled :: ConnectionKafkaBuilder where
  "tunnelled = KafkaSSHTunnel (named ''ssh'') untunnelled"

definition no_brokers :: ConnectionKafkaBuilder where
  "no_brokers = KafkaSSHTunnel (named ''ssh'') (NewConnectionKafkaBuilder ''k1'' [] [])"

text \<open>
  Setter calls for a broker, a progress topic, TLS fields and SASL fields, made in an order
  that is not the order of the clauses.
\<close>

definition scrambled_calls :: "setter_call list" where
  "scrambled_calls =
     [CallKafkaSASLPassword (named ''pw_secret''),
      CallKafkaSSLKey (named ''key_secret''),
      CallKafkaProgressTopic ''progress'',
      CallKafkaSASLUsername \<lparr>Text = ''u'', Secret = zero_IdentifierSchemaStruct\<rparr>,
      CallKafkaSSLCa \<lparr>Text = [], Secret = named ''ca_secret''\<rparr>,
      CallKafkaBrokers [plain_broker ''b1:9092''],
      CallKafkaSASLMechanisms ''PLAIN'']"

text \<open>
  A Kafka connection \<open>k1\<close> with an ownership role and a comment, and one with a comment
  only; a store on which the ownership statement and the drop both fail, and one on which
  the comment statement and the drop both fail.
\<close>

definition empty_world :: world where
  "empty_world = \<lparr>issued = [], privileges = {}\<rparr>"

definition owned_connection :: ResourceData where
  "owned_connection =
     (\<lambda>key. if key = ''name'' then ''k1''
            else if key = ''ownership_role'' then ''owner''
            else if key = ''comment'' then ''hello''
            else [])"

definition commented_connection :: ResourceData where
  "commented_connection =
     (\<lambda>key. if key = ''name'' then ''k1''
            else if key = ''comment'' then ''hello''
            else [])"

definition k1_object :: MaterializeObject where
  "k1_object =
     \<lparr>ObjectType = ''CONNECTION'', MaterializeObject.Name = ''k1'',
      MaterializeObject.SchemaName = [], MaterializeObject.DatabaseName = []\<rparr>"

definition ownership_and_drop_fail :: env where
  "ownership_and_drop_fail =
     \<lparr>client = Inr ''aws/us-east-1'',
      exec = (\<lambda>c. case c of
                CallAlter obj role \<Rightarrow> Some ''ownership failed''
              | CallDrop obj \<Rightarrow> Some ''drop failed''
              | _ \<Rightarrow> None),
      query = (\<lambda>c. Inr ''u1''),
      read = []\<rparr>"

definition comment_and_drop_fail :: env where
  "comment_and_drop_fail =
     \<lparr>client = Inr ''aws/us-east-1'',
      exec = (\<lambda>c. case c of
                CallObject obj text \<Rightarrow> Some ''comment failed''
              | CallDrop obj \<Rightarrow> Some ''drop failed''
              | _ \<Rightarrow> None),
      query = (\<lambda>c. Inr ''u1''),
      read = []\<rparr>"

text \<open>
  Scenario C of the spec: \<open>SELECT\<close> on secret \<open>s1\<close> in schema \<open>sch\<close> of database \<open>db\<close> to
  role \<open>r1\<close> in region \<open>us-east-1\<close>, object id \<open>42\<close>, role id \<open>7\<close>; and stores on which
  the lookup of the role id, or of the object id, fails.
\<close>

definition scenario_C :: ResourceData where
  "scenario_C =
     (\<lambda>key. if key = ''role_name'' then ''r1''
            else if key = ''privilege'' then ''SELECT''
            else if key = ''secret_name'' then ''s1''
            else if key = ''schema_name'' then ''sch''
            else if key = ''database_name'' then ''db''
            else [])"

definition s1_object :: MaterializeObject where
  "s1_object =
     \<lparr>ObjectType = ''SECRET'', MaterializeObject.Name = ''s1'',
      MaterializeObject.SchemaName = ''sch'', MaterializeObject.DatabaseName = ''db''\<rparr>"

definition scenario_C_store :: env where
  "scenario_C_store =
     \<lparr>client = Inr ''us-east-1'',
      exec = (\<lambda>c. None),
      query = (\<lambda>c. case c of
                 CallRoleId role \<Rightarrow> Inr ''7''
               | CallObjectId obj \<Rightarrow> Inr ''42''
               | _ \<Rightarrow> Inl ''no rows''),
      read = []\<rparr>"

definition role_lookup_fails :: env where
  "role_lookup_fails =
     \<lparr>client = Inr ''us-east-1'',
      exec = (\<lambda>c. None),
      query = (\<lambda>c. case c of
                 CallObjectId obj \<Rightarrow> Inr ''42''
               | _ \<Rightarrow> Inl ''no rows''),
      read = []\<rparr>"

definition object_lookup_fails :: env where
  "object_lookup_fails =
     \<lparr>client = Inr ''us-east-1'',
      exec = (\<lambda>c. None),
      query = (\<lambda>c. case c of
                 CallRoleId role \<Rightarrow> Inr ''7''
               | _ \<Rightarrow> Inl ''no rows''),
      read = []\<rparr>"


section \<open>Properties of the statement builder\<close>

lemmas example_defs =
  scenario_A_def scenario_A_calls_def scrambled_calls_def ca_text_and_secret_def two_brokers_def untunnelled_def
  tunnelled_def no_brokers_def named_def plain_broker_def run_calls_def
  NewConnectionKafkaBuilder_def KafkaBrokers_def KafkaProgressTopic_def KafkaSSLCa_def
  KafkaSSLCert_def KafkaSSLKey_def KafkaSASLMechanisms_def KafkaSASLUsername_def
  KafkaSASLPassword_def KafkaSSHTunnel_def zero_IdentifierSchemaStruct_def
  zero_ValueSecretStruct_def

lemmas render_defs =
  Connection_QualifiedName_def IdentifierSchemaStruct_QualifiedName_def QualifiedName_def
  QuoteString_def squote_def fmt_d_def

lemmas create_defs =
  Create_def Create_writes_def Create_brokers_def Create_options_def

subsection \<open>Writes selected by place\<close>

lemma clauses_at_Nil: "clauses_at S [] = []"
  by (simp add: clauses_at_def)

lemma clauses_at_Cons:
  "clauses_at S (w # ws) = (if fst w \<in> set S then w # clauses_at S ws else clauses_at S ws)"
  by (simp add: clauses_at_def)

lemma clauses_at_append: "clauses_at S (xs @ ys) = clauses_at S xs @ clauses_at S ys"
  by (simp add: clauses_at_def)

lemma clauses_at_if:
  "clauses_at S (if c then [w] else []) = (if c \<and> fst w \<in> set S then [w] else [])"
  by (simp add: clauses_at_def)

lemma clauses_at_none: "(\<And>w. w \<in> set ws \<Longrightarrow> fst w \<notin> set S) \<Longrightarrow> clauses_at S ws = []"
  by (auto simp: clauses_at_def filter_empty_conv)

subsection \<open>The two loops\<close>

lemma ssh_tunnel_loop_sites:
  "w \<in> set (ssh_tunnel_loop t n i brs) \<Longrightarrow> fst w \<in> {BrokerSshTunnel, BrokerSeparator}"
  by (induction brs arbitrary: i) (auto split: if_splits)

lemma broker_loop_sites:
  "w \<in> set (broker_loop n i brs) \<Longrightarrow> fst w \<in> {BrokerPrivateLink, BrokerPlain, BrokerSeparator}"
  by (induction brs arbitrary: i) (auto split: if_splits)

lemma clauses_at_ssh_tunnel_loop:
  "clauses_at broker_sites (ssh_tunnel_loop t n i brs) =
     map (\<lambda>br. (BrokerSshTunnel, ssh_tunnel_clause t br)) brs"
  by (induction brs arbitrary: i)
     (simp_all add: clauses_at_def broker_sites_def ssh_tunnel_clause_def)

lemma clauses_at_broker_loop:
  "clauses_at broker_sites (broker_loop n i brs) = map broker_clause brs"
  by (induction brs arbitrary: i)
     (simp_all add: clauses_at_def broker_sites_def broker_clause_def privatelink_clause_def
        fully_privatelink_def)

text \<open>
  The separator is written after every broker but the last. The loop index is generalised:
  \<open>n\<close> is the index plus the number of brokers still to come.
\<close>

lemma concat_ssh_tunnel_loop:
  "n = i + length brs \<Longrightarrow>
   concat (map snd (ssh_tunnel_loop t n i brs)) = join '','' (map (ssh_tunnel_clause t) brs)"
proof (induction brs arbitrary: i)
  case Nil
  then show ?case by simp
next
  case (Cons br rest)
  show ?case
  proof (cases rest)
    case Nil
    with Cons.prems show ?thesis by (simp add: ssh_tunnel_clause_def)
  next
    case (Cons r rs)
    with Cons.prems Cons.IH [of "Suc i"] show ?thesis by (simp add: ssh_tunnel_clause_def)
  qed
qed

lemma concat_broker_loop:
  "n = i + length brs \<Longrightarrow>
   concat (map snd (broker_loop n i brs)) = join '', '' (map (snd \<circ> broker_clause) brs)"
proof (induction brs arbitrary: i)
  case Nil
  then show ?case by simp
next
  case (Cons br rest)
  show ?case
  proof (cases rest)
    case Nil
    with Cons.prems show ?thesis
      by (simp add: broker_clause_def privatelink_clause_def fully_privatelink_def)
  next
    case (Cons r rs)
    with Cons.prems Cons.IH [of "Suc i"] show ?thesis
      by (simp add: broker_clause_def privatelink_clause_def fully_privatelink_def)
  qed
qed

subsection \<open>Where each part of Create writes\<close>

lemma Create_brokers_sites:
  "w \<in> set (Create_brokers b) \<Longrightarrow>
   fst w \<in> {BrokersOpen, BrokerSshTunnel, BrokerPrivateLink, BrokerPlain, BrokerSeparator,
            BrokersClose}"
  using ssh_tunnel_loop_sites [of w "kafkaSSHTunnel b" "length (kafkaBrokers b)" 0 "kafkaBrokers b"]
        broker_loop_sites [of w "length (kafkaBrokers b)" 0 "kafkaBrokers b"]
  by (auto simp: Create_brokers_def split: if_splits)

lemma Create_options_sites: "w \<in> set (Create_options b) \<Longrightarrow> fst w \<in> set option_sites"
  by (auto simp add: Create_options_def option_sites_def split: if_splits)

lemma clauses_at_options_broker: "clauses_at broker_sites (Create_options b) = []"
proof (rule clauses_at_none)
  fix w assume "w \<in> set (Create_options b)"
  then have "fst w \<in> set option_sites" by (rule Create_options_sites)
  then show "fst w \<notin> set broker_sites"
    by (auto simp: option_sites_def broker_sites_def)
qed

lemma clauses_at_brokers_options:
  "set S \<subseteq> set option_sites \<Longrightarrow> clauses_at S (Create_brokers b) = []"
proof (rule clauses_at_none)
  fix w assume "set S \<subseteq> set option_sites" and "w \<in> set (Create_brokers b)"
  then show "fst w \<notin> set S"
    using Create_brokers_sites [of w b] by (auto simp: option_sites_def)
qed

lemma clauses_at_Create_writes_options:
  "set S \<subseteq> set option_sites \<Longrightarrow>
   clauses_at S (Create_writes b) = clauses_at S (Create_options b)"
  by (auto simp: Create_writes_def clauses_at_append clauses_at_Cons clauses_at_Nil
      clauses_at_brokers_options option_sites_def)

lemma Create_as_string:
  "Create b =
     ''CREATE CONNECTION '' @ Connection_QualifiedName b @ '' TO KAFKA ('' @
     concat (map snd (Create_brokers b)) @ concat (map snd (Create_options b)) @ '');''"
  by (simp add: Create_def Create_writes_def)

subsection \<open>Fields of type ValueSecretStruct\<close>

lemma ca_clauses:
  "clauses_at [SslCaText, SslCaSecret] (Create_writes b) =
     value_secret_clauses SslCaText SslCaSecret ''SSL CERTIFICATE AUTHORITY'' (kafkaSSLCa b)"
  by (simp add: clauses_at_Create_writes_options option_sites_def)
     (simp add: Create_options_def clauses_at_append clauses_at_if value_secret_clauses_def)

lemma cert_clauses:
  "clauses_at [SslCertText, SslCertSecret] (Create_writes b) =
     value_secret_clauses SslCertText SslCertSecret ''SSL CERTIFICATE'' (kafkaSSLCert b)"
  by (simp add: clauses_at_Create_writes_options option_sites_def)
     (simp add: Create_options_def clauses_at_append clauses_at_if value_secret_clauses_def)

lemma username_clauses:
  "clauses_at [SaslUsernameText, SaslUsernameSecret] (Create_writes b) =
     value_secret_clauses SaslUsernameText SaslUsernameSecret ''SASL USERNAME''
       (kafkaSASLUsername b)"
  by (simp add: clauses_at_Create_writes_options option_sites_def)
     (simp add: Create_options_def clauses_at_append clauses_at_if value_secret_clauses_def)

lemma value_secret_clauses_exclusive:
  "exclusive v \<Longrightarrow>
   value_secret_clauses s1 s2 k v =
     (if Text v \<noteq> [] then [(s1, '', '' @ k @ '' = '' @ QuoteString (Text v))]
      else if IdentifierSchemaStruct.Name (Secret v) \<noteq> []
      then [(s2, '', '' @ k @ '' = SECRET '' @ IdentifierSchemaStruct_QualifiedName (Secret v))]
      else [])"
  by (auto simp: value_secret_clauses_def exclusive_def)

lemma value_secret_clauses_both:
  "\<not> exclusive v \<Longrightarrow>
   value_secret_clauses s1 s2 k v =
     [(s1, '', '' @ k @ '' = '' @ QuoteString (Text v)),
      (s2, '', '' @ k @ '' = SECRET '' @ IdentifierSchemaStruct_QualifiedName (Secret v))]"
  by (auto simp: value_secret_clauses_def exclusive_def)

subsection \<open>The order of the clauses\<close>

lemma Create_brokers_phase: "w \<in> set (Create_brokers b) \<Longrightarrow> phase (fst w) = 1"
  using Create_brokers_sites [of w b] by auto

lemma Create_options_phase:
  "w \<in> set (Create_options b) \<Longrightarrow> 2 \<le> phase (fst w) \<and> phase (fst w) \<le> 4"
  using Create_options_sites [of w b] by (auto simp: option_sites_def)

lemma sorted_map_if_append:
  "sorted (map f ((if c then [x] else []) @ ys)) =
     (sorted (map f ys) \<and> (c \<longrightarrow> (\<forall>y\<in>set ys. f x \<le> f y)))"
  by (cases c) auto

lemma sorted_map_if: "sorted (map f (if c then [x] else []))"
  by (cases c) simp_all

lemma ball_set_if: "(\<forall>y\<in>set (if c then [x] else []). P y) = (c \<longrightarrow> P x)"
  by (cases c) simp_all

lemma sorted_map_const: "(\<And>x. x \<in> set xs \<Longrightarrow> f x = k) \<Longrightarrow> sorted (map f xs)"
  by (induction xs) auto

lemma Create_options_sorted: "sorted (map (phase \<circ> fst) (Create_options b))"
  unfolding Create_options_def
  by (simp only: sorted_map_if_append sorted_map_if set_append ball_Un ball_set_if) simp

lemma Create_writes_sorted: "sorted (map (phase \<circ> fst) (Create_writes b))"
proof -
  have brokers: "sorted (map (phase \<circ> fst) (Create_brokers b))"
    by (rule sorted_map_const [where k = 1]) (simp add: Create_brokers_phase)
  have "(phase \<circ> fst) x \<le> (phase \<circ> fst) y"
    if "x \<in> set (Create_brokers b)" and "y \<in> set (Create_options b)" for x y
    using Create_brokers_phase [OF that(1)] Create_options_phase [OF that(2)] by simp
  moreover have "(phase \<circ> fst) y \<le> 5" if "y \<in> set (Create_options b)" for y
    using Create_options_phase [OF that] by simp
  moreover have "(phase \<circ> fst) x \<le> 5" if "x \<in> set (Create_brokers b)" for x
    using Create_brokers_phase [OF that] by simp
  ultimately show ?thesis
    using brokers Create_options_sorted [of b]
    by (simp add: Create_writes_def sorted_append)
qed

subsection \<open>The setters commute\<close>

lemma run_call_commute:
  "call_field x \<noteq> call_field y \<Longrightarrow> run_call x (run_call y b) = run_call y (run_call x b)"
  by (cases x; cases y)
     (simp_all add: KafkaBrokers_def KafkaProgressTopic_def KafkaSSLCa_def KafkaSSLCert_def
        KafkaSSLKey_def KafkaSASLMechanisms_def KafkaSASLUsername_def KafkaSASLPassword_def
        KafkaSSHTunnel_def)

lemma run_calls_permuted:
  assumes "mset cs1 = mset cs2" and "distinct (map call_field cs1)"
  shows "run_calls cs1 b = run_calls cs2 b"
proof -
  have "run_call x \<circ> run_call y = run_call y \<circ> run_call x"
    if "x \<in> set cs1" and "y \<in> set cs1" for x y
  proof (cases "x = y")
    case True
    then show ?thesis by simp
  next
    case False
    with assms(2) that have "call_field x \<noteq> call_field y"
      by (auto simp: distinct_map inj_on_def)
    then show ?thesis
      by (auto simp: fun_eq_iff run_call_commute)
  qed
  then have "fold run_call cs1 = fold run_call cs2"
    using assms(1) by (rule fold_multiset_equiv)
  then show ?thesis
    by (simp add: run_calls_def)
qed

lemma same_fields_eq: "same_fields b1 b2 \<Longrightarrow> b1 = b2"
  by (cases b1, cases b2) (simp add: same_fields_def)

subsection \<open>The statement returned, part by part\<close>

lemma concat_snd_if:
  "concat (map snd (if c then [(s, t)] else [])) = (if c then t else [])"
  by (cases c) simp_all

lemma Create_brokers_text: "concat (map snd (Create_brokers b)) = brokers_text b"
  by (simp add: Create_brokers_def brokers_text_def concat_ssh_tunnel_loop concat_broker_loop)

lemma Create_options_text:
  "concat (map snd (Create_options b)) = progress_topic_text b @ tls_text b @ sasl_text b"
  unfolding Create_options_def progress_topic_text_def tls_text_def sasl_text_def
    value_secret_text_def quoted_text_def secret_reference_text_def
  by (simp only: map_append concat_append concat_snd_if) simp

lemma Create_kafka_statement: "Create b = kafka_statement b"
  by (simp add: Create_as_string kafka_statement_def Create_brokers_text Create_options_text)


section \<open>Claims about the statement builder\<close>

text \<open>
  C6. For the descriptor of scenario A (connection \<open>k1\<close>, one broker \<open>b1:9092\<close>, SASL
  mechanism \<open>PLAIN\<close>, SASL username given as the text \<open>u\<close>, SASL password given as the
  secret \<open>pw_secret\<close>), \<open>Create()\<close> returns exactly the statement of the spec.
\<close>

theorem Create_scenario_A:
  "Create scenario_A =
     ''CREATE CONNECTION k1 TO KAFKA (BROKERS ('b1:9092'), SASL MECHANISMS = 'PLAIN', SASL USERNAME = 'u', SASL PASSWORD = SECRET pw_secret);''"
  by (simp add: example_defs create_defs render_defs)

text \<open>
  C4. When the tunnel of the connection is named, every broker is written in the
  \<open>USING SSH TUNNEL\<close> form, one clause per broker in the order of the list: the clause is
  made of the broker's host and the tunnel only, so the broker's port, availability zone and
  PrivateLink connection play no part. The statement as a whole is the head, the clauses
  joined by commas, and the optional clauses.
\<close>

theorem Create_ssh_tunnel_overrides:
  assumes "IdentifierSchemaStruct.Name (kafkaSSHTunnel b) \<noteq> []"
  shows "clauses_at broker_sites (Create_writes b) =
           map (\<lambda>br. (BrokerSshTunnel, ssh_tunnel_clause (kafkaSSHTunnel b) br)) (kafkaBrokers b)
       \<and> Create b =
           ''CREATE CONNECTION '' @ Connection_QualifiedName b @ '' TO KAFKA (BROKERS ('' @
           join '','' (map (ssh_tunnel_clause (kafkaSSHTunnel b)) (kafkaBrokers b)) @ '')'' @
           concat (map snd (Create_options b)) @ '');''"
proof
  show "clauses_at broker_sites (Create_writes b) =
          map (\<lambda>br. (BrokerSshTunnel, ssh_tunnel_clause (kafkaSSHTunnel b) br)) (kafkaBrokers b)"
    using assms
    by (simp add: Create_writes_def Create_brokers_def clauses_at_append clauses_at_Cons
        clauses_at_Nil clauses_at_ssh_tunnel_loop clauses_at_options_broker)
       (simp add: broker_sites_def)
  show "Create b =
          ''CREATE CONNECTION '' @ Connection_QualifiedName b @ '' TO KAFKA (BROKERS ('' @
          join '','' (map (ssh_tunnel_clause (kafkaSSHTunnel b)) (kafkaBrokers b)) @ '')'' @
          concat (map snd (Create_options b)) @ '');''"
    using assms
    by (simp add: Create_as_string Create_brokers_def concat_ssh_tunnel_loop)
qed

theorem Create_ssh_tunnel_overrides_witness:
  "IdentifierSchemaStruct.Name (kafkaSSHTunnel tunnelled) \<noteq> [] \<and>
   map fst (clauses_at broker_sites (Create_writes tunnelled)) = [BrokerSshTunnel, BrokerSshTunnel] \<and>
   Create tunnelled =
     ''CREATE CONNECTION k1 TO KAFKA (BROKERS ('b1:9092' USING SSH TUNNEL ssh,'b2:9092' USING SSH TUNNEL ssh));''"
proof -
  have h: "IdentifierSchemaStruct.Name (kafkaSSHTunnel tunnelled) \<noteq> []"
    by (simp add: example_defs)
  have options: "Create_options tunnelled = []"
    by (simp add: example_defs Create_options_def)
  show ?thesis
    using h Create_ssh_tunnel_overrides [OF h]
    by (simp add: options) (simp add: example_defs ssh_tunnel_clause_def render_defs)
qed

text \<open>
  C8. When the tunnel of the connection is not named, each broker is written on its own: in
  the \<open>USING AWS PRIVATELINK\<close> form exactly when its target-group port, its availability zone
  and the name of its PrivateLink connection are all set, and as the quoted host otherwise.
  \<open>Create\<close> is a total function into strings: there is no error to return.
\<close>

theorem Create_partial_privatelink_is_plain:
  assumes "IdentifierSchemaStruct.Name (kafkaSSHTunnel b) = []"
  shows "clauses_at broker_sites (Create_writes b) =
           map (\<lambda>br. if TargetGroupPort br \<noteq> 0 \<and> AvailabilityZone br \<noteq> [] \<and>
                        IdentifierSchemaStruct.Name (PrivateLinkConnection br) \<noteq> []
                     then (BrokerPrivateLink, privatelink_clause br)
                     else (BrokerPlain, QuoteString (Broker br)))
               (kafkaBrokers b)
       \<and> Create b =
           ''CREATE CONNECTION '' @ Connection_QualifiedName b @ '' TO KAFKA (BROKERS ('' @
           join '', '' (map (snd \<circ> broker_clause) (kafkaBrokers b)) @ '')'' @
           concat (map snd (Create_options b)) @ '');''"
proof
  have "clauses_at broker_sites (Create_writes b) = map broker_clause (kafkaBrokers b)"
    using assms
    by (simp add: Create_writes_def Create_brokers_def clauses_at_append clauses_at_Cons
        clauses_at_Nil clauses_at_broker_loop clauses_at_options_broker)
       (simp add: broker_sites_def)
  then show "clauses_at broker_sites (Create_writes b) =
           map (\<lambda>br. if TargetGroupPort br \<noteq> 0 \<and> AvailabilityZone br \<noteq> [] \<and>
                        IdentifierSchemaStruct.Name (PrivateLinkConnection br) \<noteq> []
                     then (BrokerPrivateLink, privatelink_clause br)
                     else (BrokerPlain, QuoteString (Broker br)))
               (kafkaBrokers b)"
    by (simp add: broker_clause_def fully_privatelink_def cong: map_cong)
  show "Create b =
          ''CREATE CONNECTION '' @ Connection_QualifiedName b @ '' TO KAFKA (BROKERS ('' @
          join '', '' (map (snd \<circ> broker_clause) (kafkaBrokers b)) @ '')'' @
          concat (map snd (Create_options b)) @ '');''"
    using assms
    by (simp add: Create_as_string Create_brokers_def concat_broker_loop)
qed

theorem Create_partial_privatelink_is_plain_witness:
  "IdentifierSchemaStruct.Name (kafkaSSHTunnel untunnelled) = [] \<and>
   map fst (clauses_at broker_sites (Create_writes untunnelled)) = [BrokerPlain, BrokerPrivateLink] \<and>
   Create untunnelled =
     ''CREATE CONNECTION k1 TO KAFKA (BROKERS ('b1:9092', 'b2:9092' USING AWS PRIVATELINK pl (PORT 9094, AVAILABILITY ZONE 'use1-az1')));''"
proof -
  have h: "IdentifierSchemaStruct.Name (kafkaSSHTunnel untunnelled) = []"
    by (simp add: example_defs)
  have options: "Create_options untunnelled = []"
    by (simp add: example_defs Create_options_def)
  show ?thesis
    using h Create_partial_privatelink_is_plain [OF h]
    by (simp add: options)
       (simp add: example_defs broker_clause_def fully_privatelink_def privatelink_clause_def
          render_defs)
qed

text \<open>
  C9. With an empty broker list, with or without a tunnel, the brokers clause is still
  written, as \<open>BROKERS ()\<close>, right after the head of the statement.
\<close>

theorem Create_empty_brokers:
  assumes "kafkaBrokers b = []"
  shows "Create_brokers b = [(BrokersOpen, ''BROKERS (''), (BrokersClose, '')'')]
       \<and> Create b =
           ''CREATE CONNECTION '' @ Connection_QualifiedName b @ '' TO KAFKA ('' @
           ''BROKERS ()'' @ concat (map snd (Create_options b)) @ '');''"
  using assms by (simp add: Create_as_string Create_brokers_def)

theorem Create_empty_brokers_witness:
  "kafkaBrokers no_brokers = [] \<and>
   Create no_brokers = ''CREATE CONNECTION k1 TO KAFKA (BROKERS ());'' \<and>
   kafkaBrokers (NewConnectionKafkaBuilder ''k1'' [] []) = [] \<and>
   Create (NewConnectionKafkaBuilder ''k1'' [] []) = ''CREATE CONNECTION k1 TO KAFKA (BROKERS ());''"
proof -
  have h1: "kafkaBrokers no_brokers = []"
    by (simp add: example_defs)
  have h2: "kafkaBrokers (NewConnectionKafkaBuilder ''k1'' [] []) = []"
    by (simp add: example_defs)
  show ?thesis
    using h1 h2 Create_empty_brokers [OF h1] Create_empty_brokers [OF h2]
    by (simp add: example_defs Create_options_def render_defs)
qed

text \<open>
  C1, as the spec states it: for every builder and each of the three fields of type
  \<open>ValueSecretStruct\<close>, at most one of the plaintext clause and the secret clause is written.
  It fails for a certificate authority given both as text and as a secret: both clauses
  are written, one after the other.
\<close>

theorem Create_ca_text_and_secret_both_written:
  "\<not> length (clauses_at [SslCaText, SslCaSecret] (Create_writes ca_text_and_secret)) \<le> 1
   \<and> clauses_at [SslCaText, SslCaSecret] (Create_writes ca_text_and_secret) =
     [(SslCaText, '', SSL CERTIFICATE AUTHORITY = 'pem'' @ squote),
      (SslCaSecret, '', SSL CERTIFICATE AUTHORITY = SECRET ca_secret'')]
   \<and> Create ca_text_and_secret =
     ''CREATE CONNECTION k1 TO KAFKA (BROKERS ('b1:9092'), SSL CERTIFICATE AUTHORITY = 'pem', SSL CERTIFICATE AUTHORITY = SECRET ca_secret);''"
  by (simp add: example_defs create_defs render_defs clauses_at_def)

text \<open>
  C1, amended. For every builder and each of the fields SSL certificate authority, SSL
  certificate and SASL username: the plaintext clause is written exactly when \<open>Text\<close> is not
  empty and the secret clause exactly when \<open>Secret.Name\<close> is not empty, each at most once,
  the plaintext clause first. So no clause is written for an empty value, and when not both
  of \<open>Text\<close> and \<open>Secret.Name\<close> are set, zero or one of the two clauses is written.
\<close>

theorem Create_value_secret_clauses:
  "clauses_at [SslCaText, SslCaSecret] (Create_writes b) =
     value_secret_clauses SslCaText SslCaSecret ''SSL CERTIFICATE AUTHORITY'' (kafkaSSLCa b)
   \<and> clauses_at [SslCertText, SslCertSecret] (Create_writes b) =
     value_secret_clauses SslCertText SslCertSecret ''SSL CERTIFICATE'' (kafkaSSLCert b)
   \<and> clauses_at [SaslUsernameText, SaslUsernameSecret] (Create_writes b) =
     value_secret_clauses SaslUsernameText SaslUsernameSecret ''SASL USERNAME''
       (kafkaSASLUsername b)
   \<and> (exclusive (kafkaSSLCa b) \<longrightarrow>
        length (clauses_at [SslCaText, SslCaSecret] (Create_writes b)) \<le> 1)
   \<and> (exclusive (kafkaSSLCert b) \<longrightarrow>
        length (clauses_at [SslCertText, SslCertSecret] (Create_writes b)) \<le> 1)
   \<and> (exclusive (kafkaSASLUsername b) \<longrightarrow>
        length (clauses_at [SaslUsernameText, SaslUsernameSecret] (Create_writes b)) \<le> 1)"
  by (simp add: ca_clauses cert_clauses username_clauses value_secret_clauses_exclusive)

theorem Create_value_secret_clauses_witness:
  "exclusive (kafkaSSLCa scenario_A) \<and> exclusive (kafkaSSLCert scenario_A) \<and>
   exclusive (kafkaSASLUsername scenario_A) \<and>
   clauses_at [SslCaText, SslCaSecret] (Create_writes scenario_A) = [] \<and>
   clauses_at [SslCertText, SslCertSecret] (Create_writes scenario_A) = [] \<and>
   clauses_at [SaslUsernameText, SaslUsernameSecret] (Create_writes scenario_A) =
     [(SaslUsernameText, '', SASL USERNAME = 'u'' @ squote)] \<and>
   length (clauses_at [SaslUsernameText, SaslUsernameSecret] (Create_writes scenario_A)) \<le> 1"
proof -
  have h: "exclusive (kafkaSSLCa scenario_A) \<and> exclusive (kafkaSSLCert scenario_A) \<and>
           exclusive (kafkaSASLUsername scenario_A)"
    by (simp add: exclusive_def example_defs)
  show ?thesis
    using h Create_value_secret_clauses [of scenario_A]
    by (simp add: value_secret_clauses_def) (simp add: example_defs render_defs)
qed

text \<open>
  C5. Two builders with the same contents in every field give the same statement, byte for
  byte, and the statement is made of the parts of the grammar in one order, whatever the
  builder: the head, the brokers, the progress topic, the TLS fields, the SASL fields, the
  end, each part decided by the fields alone. The order of the setter calls does not
  matter: calls that assign different fields, made in any order on builders with the same
  contents, lead to that same statement. The writes of \<open>Create\<close> come in the same order.
\<close>

theorem Create_deterministic:
  assumes "same_fields b1 b2" and "mset cs1 = mset cs2" and "distinct (map call_field cs1)"
  shows "Create b1 = Create b2
       \<and> Create (run_calls cs1 b1) = Create (run_calls cs2 b2)
       \<and> sorted (map (phase \<circ> fst) (Create_writes b1))
       \<and> sorted (map (phase \<circ> fst) (Create_writes (run_calls cs1 b1)))
       \<and> Create b1 =
           ''CREATE CONNECTION '' @ Connection_QualifiedName b2 @ '' TO KAFKA ('' @
           brokers_text b2 @ progress_topic_text b2 @ tls_text b2 @ sasl_text b2 @ '');''
       \<and> Create (run_calls cs1 b1) =
           ''CREATE CONNECTION '' @ Connection_QualifiedName (run_calls cs2 b2) @
           '' TO KAFKA ('' @
           brokers_text (run_calls cs2 b2) @ progress_topic_text (run_calls cs2 b2) @
           tls_text (run_calls cs2 b2) @ sasl_text (run_calls cs2 b2) @ '');''"
proof -
  from assms(1) have same: "b1 = b2" by (rule same_fields_eq)
  from assms(2,3) have permuted: "run_calls cs1 b1 = run_calls cs2 b1"
    by (rule run_calls_permuted)
  have "Create b1 = kafka_statement b2"
    using same by (simp add: Create_kafka_statement)
  moreover have "Create (run_calls cs1 b1) = kafka_statement (run_calls cs2 b2)"
    using same permuted by (simp add: Create_kafka_statement)
  ultimately show ?thesis
    using same permuted by (simp add: Create_writes_sorted kafka_statement_def)
qed

theorem Create_deterministic_witness:
  "same_fields (NewConnectionKafkaBuilder ''k1'' [] []) (NewConnectionKafkaBuilder ''k1'' [] []) \<and>
   mset scrambled_calls = mset (rev scrambled_calls) \<and>
   distinct (map call_field scrambled_calls) \<and>
   Create (run_calls scrambled_calls (NewConnectionKafkaBuilder ''k1'' [] [])) =
     Create (run_calls (rev scrambled_calls) (NewConnectionKafkaBuilder ''k1'' [] [])) \<and>
   Create (run_calls scrambled_calls (NewConnectionKafkaBuilder ''k1'' [] [])) =
     ''CREATE CONNECTION k1 TO KAFKA (BROKERS ('b1:9092'), PROGRESS TOPIC 'progress', SSL CERTIFICATE AUTHORITY = SECRET ca_secret, SSL KEY = SECRET key_secret, SASL MECHANISMS = 'PLAIN', SASL USERNAME = 'u', SASL PASSWORD = SECRET pw_secret);'' \<and>
   map (phase \<circ> fst) (Create_writes scenario_A) = [0, 1, 1, 1, 4, 4, 4, 5]"
proof -
  let ?new = "NewConnectionKafkaBuilder ''k1'' [] []"
  have h1: "same_fields ?new ?new"
    by (simp add: same_fields_def)
  have h2: "mset scrambled_calls = mset (rev scrambled_calls)"
    by simp
  have h3: "distinct (map call_field scrambled_calls)"
    by (simp add: scrambled_calls_def)
  have phases: "map (phase \<circ> fst) (Create_writes scenario_A) = [0, 1, 1, 1, 4, 4, 4, 5]"
    by (simp add: example_defs create_defs)
  have rendered: "''CREATE CONNECTION '' @ Connection_QualifiedName (run_calls (rev scrambled_calls) ?new) @
      '' TO KAFKA ('' @
      brokers_text (run_calls (rev scrambled_calls) ?new) @
      progress_topic_text (run_calls (rev scrambled_calls) ?new) @
      tls_text (run_calls (rev scrambled_calls) ?new) @
      sasl_text (run_calls (rev scrambled_calls) ?new) @ '');'' =
     ''CREATE CONNECTION k1 TO KAFKA (BROKERS ('b1:9092'), PROGRESS TOPIC 'progress', SSL CERTIFICATE AUTHORITY = SECRET ca_secret, SSL KEY = SECRET key_secret, SASL MECHANISMS = 'PLAIN', SASL USERNAME = 'u', SASL PASSWORD = SECRET pw_secret);''"
    by (simp add: example_defs render_defs brokers_text_def progress_topic_text_def tls_text_def
        sasl_text_def value_secret_text_def quoted_text_def secret_reference_text_def
        broker_clause_def fully_privatelink_def)
  from Create_deterministic [OF h1 h2 h3]
  have "Create (run_calls scrambled_calls ?new) = Create (run_calls (rev scrambled_calls) ?new)"
    and "Create (run_calls scrambled_calls ?new) =
      ''CREATE CONNECTION '' @ Connection_QualifiedName (run_calls (rev scrambled_calls) ?new) @
      '' TO KAFKA ('' @
      brokers_text (run_calls (rev scrambled_calls) ?new) @
      progress_topic_text (run_calls (rev scrambled_calls) ?new) @
      tls_text (run_calls (rev scrambled_calls) ?new) @
      sasl_text (run_calls (rev scrambled_calls) ?new) @ '');''"
    by blast+
  with h1 h2 h3 phases rendered show ?thesis
    by (simp only: simp_thms)
qed


section \<open>Properties of the resource layer\<close>

lemmas store_example_defs =
  empty_world_def owned_connection_def commented_connection_def k1_object_def
  ownership_and_drop_fail_def comment_and_drop_fail_def scenario_C_def s1_object_def
  scenario_C_store_def role_lookup_fails_def object_lookup_fails_def

lemma issued_issue: "issued (issue c w) = issued w @ [c]"
  by (simp add: issue_def)

lemma privileges_issue: "privileges (issue c w) = privileges w"
  by (simp add: issue_def)

lemma calls_since_append: "issued w' = issued w @ cs \<Longrightarrow> calls_since w w' = cs"
  by (simp add: calls_since_def)

subsection \<open>The steps of connectionKafkaCreate\<close>

lemma b_Create_ok:
  "exec e (CallCreate obj) = None \<Longrightarrow> b_Create e obj w = (None, issue (CallCreate obj) w)"
  by (simp add: b_Create_def run_stmt_def)

lemma ownership_step_skipped:
  "d ''ownership_role'' = [] \<Longrightarrow> ownership_step e d obj w = (None, w)"
  by (simp add: ownership_step_def GetOk_def)

lemma ownership_step_ok:
  "d ''ownership_role'' \<noteq> [] \<Longrightarrow> exec e (CallAlter obj (d ''ownership_role'')) = None \<Longrightarrow>
   ownership_step e d obj w = (None, issue (CallAlter obj (d ''ownership_role'')) w)"
  by (simp add: ownership_step_def GetOk_def ownership_Alter_def run_stmt_def)

lemma ownership_step_failed:
  "d ''ownership_role'' \<noteq> [] \<Longrightarrow> exec e (CallAlter obj (d ''ownership_role'')) = Some err \<Longrightarrow>
   ownership_step e d obj w =
     (Some (FromErr err), issue (CallDrop obj) (issue (CallAlter obj (d ''ownership_role'')) w))"
  by (simp add: ownership_step_def GetOk_def ownership_Alter_def b_Drop_def run_stmt_def)

lemma comment_step_failed:
  "d ''comment'' \<noteq> [] \<Longrightarrow> exec e (CallObject obj (d ''comment'')) = Some err \<Longrightarrow>
   comment_step e d obj w =
     (Some (FromErr err), issue (CallDrop obj) (issue (CallObject obj (d ''comment'')) w))"
  by (simp add: comment_step_def GetOk_def comment_Object_def b_Drop_def run_stmt_def)

lemma connectionKafkaCreate_after_create:
  "client e = Inr region \<Longrightarrow> exec e (CallCreate (connection_object d)) = None \<Longrightarrow>
   ownership_step e d (connection_object d) (issue (CallCreate (connection_object d)) w)
     = (Some ds, w2) \<Longrightarrow>
   connectionKafkaCreate e d w = (ds, w2)"
  by (simp add: connectionKafkaCreate_def Let_def b_Create_ok)

lemma connectionKafkaCreate_after_ownership:
  "client e = Inr region \<Longrightarrow> exec e (CallCreate (connection_object d)) = None \<Longrightarrow>
   ownership_step e d (connection_object d) (issue (CallCreate (connection_object d)) w)
     = (None, w2) \<Longrightarrow>
   comment_step e d (connection_object d) w2 = (Some ds, w3) \<Longrightarrow>
   connectionKafkaCreate e d w = (ds, w3)"
  by (simp add: connectionKafkaCreate_def Let_def b_Create_ok)

subsection \<open>The steps of grantSecretCreate\<close>

lemma b_Grant_ok:
  "exec e (CallGrant r p obj) = None \<Longrightarrow>
   b_Grant e r p obj w =
     (None, (issue (CallGrant r p obj) w)\<lparr>privileges := insert (r, p, obj) (privileges w)\<rparr>)"
  by (simp add: b_Grant_def)


section \<open>Claims about the resource layer\<close>

text \<open>
  C2. In \<open>connectionKafkaCreate\<close>, when the create statement succeeded and the ownership
  statement fails, the calls made are the create, the ownership statement and one drop, and
  the diagnostics returned are those of the ownership error, whatever the drop answers.
\<close>

theorem connectionKafkaCreate_ownership_failure:
  assumes "client e = Inr region"
    and "exec e (CallCreate (connection_object d)) = None"
    and "d ''ownership_role'' \<noteq> []"
    and "exec e (CallAlter (connection_object d) (d ''ownership_role'')) = Some err"
  shows "fst (connectionKafkaCreate e d w) = FromErr err
       \<and> calls_since w (snd (connectionKafkaCreate e d w)) =
           [CallCreate (connection_object d),
            CallAlter (connection_object d) (d ''ownership_role''),
            CallDrop (connection_object d)]
       \<and> length (filter is_Drop (calls_since w (snd (connectionKafkaCreate e d w)))) = 1"
proof -
  let ?obj = "connection_object d"
  let ?w2 = "issue (CallDrop ?obj) (issue (CallAlter ?obj (d ''ownership_role''))
               (issue (CallCreate ?obj) w))"
  have "ownership_step e d ?obj (issue (CallCreate ?obj) w) = (Some (FromErr err), ?w2)"
    using assms(3,4) by (rule ownership_step_failed)
  then have run: "connectionKafkaCreate e d w = (FromErr err, ?w2)"
    by (rule connectionKafkaCreate_after_create [OF assms(1,2)])
  have "issued ?w2 = issued w @ [CallCreate ?obj, CallAlter ?obj (d ''ownership_role''), CallDrop ?obj]"
    by (simp add: issued_issue)
  then have "calls_since w ?w2 = [CallCreate ?obj, CallAlter ?obj (d ''ownership_role''), CallDrop ?obj]"
    by (rule calls_since_append)
  with run show ?thesis by simp
qed

theorem connectionKafkaCreate_ownership_failure_witness:
  "client ownership_and_drop_fail = Inr ''aws/us-east-1'' \<and>
   exec ownership_and_drop_fail (CallCreate (connection_object owned_connection)) = None \<and>
   owned_connection ''ownership_role'' \<noteq> [] \<and>
   exec ownership_and_drop_fail
     (CallAlter (connection_object owned_connection) (owned_connection ''ownership_role''))
     = Some ''ownership failed'' \<and>
   exec ownership_and_drop_fail (CallDrop (connection_object owned_connection))
     = Some ''drop failed'' \<and>
   fst (connectionKafkaCreate ownership_and_drop_fail owned_connection empty_world)
     = [''ownership failed''] \<and>
   calls_since empty_world
     (snd (connectionKafkaCreate ownership_and_drop_fail owned_connection empty_world))
     = [CallCreate k1_object, CallAlter k1_object ''owner'', CallDrop k1_object]"
proof -
  have h1: "client ownership_and_drop_fail = Inr ''aws/us-east-1''"
    by (simp add: store_example_defs)
  have h2: "exec ownership_and_drop_fail (CallCreate (connection_object owned_connection)) = None"
    by (simp add: store_example_defs)
  have h3: "owned_connection ''ownership_role'' \<noteq> []"
    by (simp add: store_example_defs)
  have h4: "exec ownership_and_drop_fail
     (CallAlter (connection_object owned_connection) (owned_connection ''ownership_role''))
     = Some ''ownership failed''"
    by (simp add: store_example_defs)
  show ?thesis
    using h1 h2 h3 h4
      connectionKafkaCreate_ownership_failure [OF h1 h2 h3 h4, of empty_world]
    by (simp add: FromErr_def connection_object_def secret_object_def Get_def store_example_defs)
qed

text \<open>
  C3, as the spec states it: when the compensating drop fails too, the caller is given both
  the first error and the drop's. It fails on a store where the ownership statement and the
  drop both fail: the drop is issued, and the diagnostics hold the ownership error alone.
\<close>

theorem connectionKafkaCreate_drop_error_not_surfaced:
  "exec ownership_and_drop_fail (CallDrop k1_object) = Some ''drop failed''
   \<and> calls_since empty_world
       (snd (connectionKafkaCreate ownership_and_drop_fail owned_connection empty_world))
       = [CallCreate k1_object, CallAlter k1_object ''owner'', CallDrop k1_object]
   \<and> fst (connectionKafkaCreate ownership_and_drop_fail owned_connection empty_world)
       = [''ownership failed'']
   \<and> ''drop failed'' \<notin>
       set (fst (connectionKafkaCreate ownership_and_drop_fail owned_connection empty_world))"
  by (simp add: connectionKafkaCreate_def Let_def b_Create_def ownership_step_def GetOk_def Get_def
      ownership_Alter_def b_Drop_def run_stmt_def issue_def calls_since_def FromErr_def
      connection_object_def store_example_defs)

text \<open>
  C3, amended. In \<open>connectionKafkaCreate\<close>, when the compensating drop issued after a failed
  ownership or comment statement fails itself, its error is dropped: the diagnostics
  returned are those of the ownership or comment error alone, and one drop was issued.
\<close>

theorem connectionKafkaCreate_drop_error_discarded:
  assumes "client e = Inr region"
    and "exec e (CallCreate (connection_object d)) = None"
    and "exec e (CallDrop (connection_object d)) = Some dropErr"
    and "(d ''ownership_role'' \<noteq> [] \<and>
          exec e (CallAlter (connection_object d) (d ''ownership_role'')) = Some err)
       \<or> ((d ''ownership_role'' = [] \<or>
           exec e (CallAlter (connection_object d) (d ''ownership_role'')) = None) \<and>
          d ''comment'' \<noteq> [] \<and>
          exec e (CallObject (connection_object d) (d ''comment'')) = Some err)"
  shows "fst (connectionKafkaCreate e d w) = FromErr err
       \<and> length (filter is_Drop (calls_since w (snd (connectionKafkaCreate e d w)))) = 1"
proof -
  let ?obj = "connection_object d"
  let ?w1 = "issue (CallCreate ?obj) w"
  let ?role = "d ''ownership_role''"
  let ?text = "d ''comment''"
  consider
    (ownership) "?role \<noteq> []" "exec e (CallAlter ?obj ?role) = Some err"
  | (unowned) "?role = []" "?text \<noteq> []" "exec e (CallObject ?obj ?text) = Some err"
  | (owned) "?role \<noteq> []" "exec e (CallAlter ?obj ?role) = None" "?text \<noteq> []"
      "exec e (CallObject ?obj ?text) = Some err"
    using assms(4) by (cases "d ''ownership_role'' = []") auto
  then show ?thesis
  proof cases
    case ownership
    let ?w2 = "issue (CallDrop ?obj) (issue (CallAlter ?obj ?role) ?w1)"
    have "ownership_step e d ?obj ?w1 = (Some (FromErr err), ?w2)"
      using ownership by (rule ownership_step_failed)
    then have "connectionKafkaCreate e d w = (FromErr err, ?w2)"
      by (rule connectionKafkaCreate_after_create [OF assms(1,2)])
    moreover have "calls_since w ?w2 = [CallCreate ?obj, CallAlter ?obj ?role, CallDrop ?obj]"
      by (rule calls_since_append) (simp add: issued_issue)
    ultimately show ?thesis by simp
  next
    case unowned
    let ?w3 = "issue (CallDrop ?obj) (issue (CallObject ?obj ?text) ?w1)"
    have "ownership_step e d ?obj ?w1 = (None, ?w1)"
      using unowned(1) by (rule ownership_step_skipped)
    moreover have "comment_step e d ?obj ?w1 = (Some (FromErr err), ?w3)"
      using unowned(2,3) by (rule comment_step_failed)
    ultimately have "connectionKafkaCreate e d w = (FromErr err, ?w3)"
      by (rule connectionKafkaCreate_after_ownership [OF assms(1,2)])
    moreover have "calls_since w ?w3 = [CallCreate ?obj, CallObject ?obj ?text, CallDrop ?obj]"
      by (rule calls_since_append) (simp add: issued_issue)
    ultimately show ?thesis by simp
  next
    case owned
    let ?w3 = "issue (CallDrop ?obj) (issue (CallObject ?obj ?text)
                 (issue (CallAlter ?obj ?role) ?w1))"
    have "ownership_step e d ?obj ?w1 = (None, issue (CallAlter ?obj ?role) ?w1)"
      using owned(1,2) by (rule ownership_step_ok)
    moreover have "comment_step e d ?obj (issue (CallAlter ?obj ?role) ?w1) =
        (Some (FromErr err), ?w3)"
      using owned(3,4) by (rule comment_step_failed)
    ultimately have "connectionKafkaCreate e d w = (FromErr err, ?w3)"
      by (rule connectionKafkaCreate_after_ownership [OF assms(1,2)])
    moreover have "calls_since w ?w3 =
        [CallCreate ?obj, CallAlter ?obj ?role, CallObject ?obj ?text, CallDrop ?obj]"
      by (rule calls_since_append) (simp add: issued_issue)
    ultimately show ?thesis by simp
  qed
qed

theorem connectionKafkaCreate_drop_error_discarded_witness:
  "client comment_and_drop_fail = Inr ''aws/us-east-1'' \<and>
   exec comment_and_drop_fail (CallCreate (connection_object commented_connection)) = None \<and>
   exec comment_and_drop_fail (CallDrop (connection_object commented_connection))
     = Some ''drop failed'' \<and>
   commented_connection ''ownership_role'' = [] \<and>
   commented_connection ''comment'' \<noteq> [] \<and>
   exec comment_and_drop_fail
     (CallObject (connection_object commented_connection) (commented_connection ''comment''))
     = Some ''comment failed'' \<and>
   fst (connectionKafkaCreate comment_and_drop_fail commented_connection empty_world)
     = [''comment failed'']"
proof -
  have h1: "client comment_and_drop_fail = Inr ''aws/us-east-1''"
    by (simp add: store_example_defs)
  have h2: "exec comment_and_drop_fail (CallCreate (connection_object commented_connection)) = None"
    by (simp add: store_example_defs)
  have h3: "exec comment_and_drop_fail (CallDrop (connection_object commented_connection))
     = Some ''drop failed''"
    by (simp add: store_example_defs)
  have h4: "(commented_connection ''ownership_role'' \<noteq> [] \<and>
          exec comment_and_drop_fail (CallAlter (connection_object commented_connection)
            (commented_connection ''ownership_role'')) = Some ''comment failed'')
       \<or> ((commented_connection ''ownership_role'' = [] \<or>
           exec comment_and_drop_fail (CallAlter (connection_object commented_connection)
            (commented_connection ''ownership_role'')) = None) \<and>
          commented_connection ''comment'' \<noteq> [] \<and>
          exec comment_and_drop_fail (CallObject (connection_object commented_connection)
            (commented_connection ''comment'')) = Some ''comment failed'')"
    by (simp add: store_example_defs)
  show ?thesis
    using h1 h2 h3 h4
      connectionKafkaCreate_drop_error_discarded [OF h1 h2 h3 h4, of empty_world]
    by (simp add: FromErr_def connection_object_def Get_def store_example_defs)
qed

text \<open>
  C7. When the grant succeeded and both lookups answer, the id handed to \<open>d.SetId\<close> is the
  grant key of the region, the object id, the role id and the privilege, and it is the same
  one when the object id is looked up before the role id.
\<close>

theorem grantSecretCreate_key_order_independent:
  assumes "client e = Inr region"
    and "exec e (CallGrant (d ''role_name'') (d ''privilege'') (secret_object d)) = None"
    and "query e (CallRoleId (d ''role_name'')) = Inr roleId"
    and "query e (CallObjectId (secret_object d)) = Inr i"
  shows "set_ids (calls_since w (snd (grantSecretCreate e d w))) =
           [GrantKey region i roleId (d ''privilege'')]
       \<and> set_ids (calls_since w (snd (grantSecretCreate_object_first e d w))) =
           [GrantKey region i roleId (d ''privilege'')]
       \<and> calls_since w (snd (grantSecretCreate e d w)) =
           [CallGrant (d ''role_name'') (d ''privilege'') (secret_object d),
            CallRoleId (d ''role_name''), CallObjectId (secret_object d),
            CallSetId (GrantKey region i roleId (d ''privilege'')), CallGrantRead]
       \<and> calls_since w (snd (grantSecretCreate_object_first e d w)) =
           [CallGrant (d ''role_name'') (d ''privilege'') (secret_object d),
            CallObjectId (secret_object d), CallRoleId (d ''role_name''),
            CallSetId (GrantKey region i roleId (d ''privilege'')), CallGrantRead]"
proof -
  let ?g = "CallGrant (d ''role_name'') (d ''privilege'') (secret_object d)"
  let ?key = "GrantKey region i roleId (d ''privilege'')"
  have role_first: "issued (snd (grantSecretCreate e d w)) =
      issued w @ [?g, CallRoleId (d ''role_name''), CallObjectId (secret_object d),
                  CallSetId ?key, CallGrantRead]"
    using assms
    by (simp add: grantSecretCreate_def Let_def Get_def b_Grant_ok RoleId_def ObjectId_def
        run_query_def grantRead_def SetId_def issued_issue)
  have object_first: "issued (snd (grantSecretCreate_object_first e d w)) =
      issued w @ [?g, CallObjectId (secret_object d), CallRoleId (d ''role_name''),
                  CallSetId ?key, CallGrantRead]"
    using assms
    by (simp add: grantSecretCreate_object_first_def Let_def Get_def b_Grant_ok RoleId_def ObjectId_def
        run_query_def grantRead_def SetId_def issued_issue)
  show ?thesis
    by (simp add: calls_since_append [OF role_first] calls_since_append [OF object_first])
qed

theorem grantSecretCreate_key_order_independent_witness:
  "client scenario_C_store = Inr ''us-east-1'' \<and>
   exec scenario_C_store
     (CallGrant (scenario_C ''role_name'') (scenario_C ''privilege'') (secret_object scenario_C))
     = None \<and>
   query scenario_C_store (CallRoleId (scenario_C ''role_name'')) = Inr ''7'' \<and>
   query scenario_C_store (CallObjectId (secret_object scenario_C)) = Inr ''42'' \<and>
   set_ids (calls_since empty_world (snd (grantSecretCreate scenario_C_store scenario_C empty_world)))
     = [GrantKey ''us-east-1'' ''42'' ''7'' ''SELECT''] \<and>
   set_ids (calls_since empty_world
     (snd (grantSecretCreate_object_first scenario_C_store scenario_C empty_world)))
     = [GrantKey ''us-east-1'' ''42'' ''7'' ''SELECT'']"
proof -
  have h1: "client scenario_C_store = Inr ''us-east-1''"
    by (simp add: store_example_defs)
  have h2: "exec scenario_C_store
     (CallGrant (scenario_C ''role_name'') (scenario_C ''privilege'') (secret_object scenario_C))
     = None"
    by (simp add: store_example_defs)
  have h3: "query scenario_C_store (CallRoleId (scenario_C ''role_name'')) = Inr ''7''"
    by (simp add: store_example_defs)
  have h4: "query scenario_C_store (CallObjectId (secret_object scenario_C)) = Inr ''42''"
    by (simp add: store_example_defs)
  show ?thesis
    using h1 h2 h3 h4
      grantSecretCreate_key_order_independent [OF h1 h2 h3 h4, of empty_world]
    by (simp add: scenario_C_def)
qed

text \<open>
  C10. In \<open>grantSecretCreate\<close>, when the grant succeeded and the lookup of the role id, or
  after it the lookup of the object id, fails, the diagnostics returned are those of the
  lookup error; the calls made are the grant and the lookups, with no revoke and no
  \<open>d.SetId\<close>; and the store holds the privilege.
\<close>

theorem grantSecretCreate_lookup_failure:
  assumes "client e = Inr region"
    and "exec e (CallGrant (d ''role_name'') (d ''privilege'') (secret_object d)) = None"
    and "query e (CallRoleId (d ''role_name'')) = Inl err
       \<or> (query e (CallRoleId (d ''role_name'')) = Inr roleId \<and>
          query e (CallObjectId (secret_object d)) = Inl err)"
  shows "fst (grantSecretCreate e d w) = FromErr err
       \<and> calls_since w (snd (grantSecretCreate e d w)) =
           CallGrant (d ''role_name'') (d ''privilege'') (secret_object d)
           # CallRoleId (d ''role_name'')
           # (case query e (CallRoleId (d ''role_name'')) of
                Inl x \<Rightarrow> [] | Inr x \<Rightarrow> [CallObjectId (secret_object d)])
       \<and> filter is_Revoke (calls_since w (snd (grantSecretCreate e d w))) = []
       \<and> set_ids (calls_since w (snd (grantSecretCreate e d w))) = []
       \<and> privileges (snd (grantSecretCreate e d w)) =
           insert (d ''role_name'', d ''privilege'', secret_object d) (privileges w)"
proof -
  let ?g = "CallGrant (d ''role_name'') (d ''privilege'') (secret_object d)"
  let ?r = "CallRoleId (d ''role_name'')"
  let ?o = "CallObjectId (secret_object d)"
  let ?w1 = "(issue ?g w)\<lparr>privileges :=
               insert (d ''role_name'', d ''privilege'', secret_object d) (privileges w)\<rparr>"
  from assms(3) show ?thesis
  proof
    assume role: "query e ?r = Inl err"
    have run: "grantSecretCreate e d w = (FromErr err, issue ?r ?w1)"
      using assms(1,2) role
      by (simp add: grantSecretCreate_def Let_def Get_def b_Grant_ok RoleId_def run_query_def)
    have "calls_since w (issue ?r ?w1) = [?g, ?r]"
      by (rule calls_since_append) (simp add: issued_issue)
    with run role show ?thesis
      by (simp add: privileges_issue)
  next
    assume object: "query e ?r = Inr roleId \<and> query e ?o = Inl err"
    have run: "grantSecretCreate e d w = (FromErr err, issue ?o (issue ?r ?w1))"
      using assms(1,2) object
      by (simp add: grantSecretCreate_def Let_def Get_def b_Grant_ok RoleId_def ObjectId_def
          run_query_def)
    have "calls_since w (issue ?o (issue ?r ?w1)) = [?g, ?r, ?o]"
      by (rule calls_since_append) (simp add: issued_issue)
    with run object show ?thesis
      by (simp add: privileges_issue)
  qed
qed

theorem grantSecretCreate_lookup_failure_witness:
  "client object_lookup_fails = Inr ''us-east-1'' \<and>
   exec object_lookup_fails
     (CallGrant (scenario_C ''role_name'') (scenario_C ''privilege'') (secret_object scenario_C))
     = None \<and>
   query object_lookup_fails (CallRoleId (scenario_C ''role_name'')) = Inr ''7'' \<and>
   query object_lookup_fails (CallObjectId (secret_object scenario_C)) = Inl ''no rows'' \<and>
   fst (grantSecretCreate object_lookup_fails scenario_C empty_world) = [''no rows''] \<and>
   calls_since empty_world (snd (grantSecretCreate object_lookup_fails scenario_C empty_world))
     = [CallGrant ''r1'' ''SELECT'' s1_object, CallRoleId ''r1'', CallObjectId s1_object] \<and>
   privileges (snd (grantSecretCreate object_lookup_fails scenario_C empty_world))
     = {(''r1'', ''SELECT'', s1_object)}"
proof -
  have h1: "client object_lookup_fails = Inr ''us-east-1''"
    by (simp add: store_example_defs)
  have h2: "exec object_lookup_fails
     (CallGrant (scenario_C ''role_name'') (scenario_C ''privilege'') (secret_object scenario_C))
     = None"
    by (simp add: store_example_defs)
  have h3: "query object_lookup_fails (CallRoleId (scenario_C ''role_name'')) = Inl ''no rows''
       \<or> (query object_lookup_fails (CallRoleId (scenario_C ''role_name'')) = Inr ''7'' \<and>
          query object_lookup_fails (CallObjectId (secret_object scenario_C)) = Inl ''no rows'')"
    by (simp add: store_example_defs)
  show ?thesis
    using h1 h2 h3
      grantSecretCreate_lookup_failure [OF h1 h2 h3, of empty_world]
    by (simp add: FromErr_def connection_object_def secret_object_def Get_def store_example_defs)
qed


end
